theory Spec2Isabelle
  imports Main
begin

section \<open>JavaScript values, thrown values and completions\<close>

text \<open>
  The values that flow through the client: response data, cached data, the arguments of
  the builder's mutators. Functions are not values of this type; the hooks of a
  configuration level are typed fields of the level.
\<close>

datatype jsval =
    Undefined
  | Null
  | Boolean bool
  | Num int
  | Str string
  | Arr "jsval list"
  | Obj "(string \<times> jsval) list"

text \<open>\<open>VortexError.TYPES\<close> (error.js).\<close>

datatype error_type =
    HTTP | NETWORK | ABORT | CONFIG | TIMEOUT | PARSE | CACHE | VALIDATION

text \<open>
  A \<open>VortexError\<close> instance: its type, message and HTTP status (\<open>null\<close> is \<open>None\<close>).
  The other fields (responseBody, requestConfig, originalError, metadata, timestamp) do
  not decide any branch of the code modelled here.
\<close>

datatype VortexError = VortexError (etype: error_type) (message: string) (status: "int option")

text \<open>
  What a \<open>throw\<close> can carry: a \<open>VortexError\<close>, or another error object with its
  \<open>name\<close> and \<open>message\<close>.
\<close>

datatype thrown = VErr VortexError | JsError string string

text \<open>
  How a call ends: it returns a value or throws. For an \<open>async\<close> function the same
  type reads "the promise resolves with" and "the promise rejects with".
\<close>

datatype 'a outcome = Returns 'a | Throws thrown

section \<open>The built-in cache (cache.js, class SimpleCache)\<close>

record CacheEntry =
  data :: jsval
  expiry :: int
  createdAt :: int
  etag :: jsval
  metadata :: jsval

record Statistics =
  hits :: nat
  misses :: nat
  sets :: nat
  deletes :: nat
  evictions :: nat

datatype stat = Hits | Misses | Sets | Deletes | Evictions

text \<open>
  \<open>this.cache\<close> is a JavaScript \<open>Map\<close>: it iterates in insertion order, and storing
  under a key that is present keeps the key's position. It is modelled as an association
  list in insertion order.
\<close>

record SimpleCache =
  cache :: "(string \<times> CacheEntry) list"
  maxSize :: int
  enableStats :: bool
  statistics :: Statistics

definition Map_has :: "(string \<times> 'v) list \<Rightarrow> string \<Rightarrow> bool" where
  "Map_has m k = (map_of m k \<noteq> None)"

fun Map_set :: "(string \<times> 'v) list \<Rightarrow> string \<Rightarrow> 'v \<Rightarrow> (string \<times> 'v) list" where
  "Map_set [] k v = [(k, v)]"
| "Map_set ((k', v') # m) k v = (if k' = k then (k, v) # m else (k', v') # Map_set m k v)"

definition Map_delete :: "(string \<times> 'v) list \<Rightarrow> string \<Rightarrow> (string \<times> 'v) list" where
  "Map_delete m k = filter (\<lambda>p. fst p \<noteq> k) m"

text \<open>The constructor: \<open>new SimpleCache({ maxSize, enableStats })\<close>.\<close>

definition new_SimpleCache :: "int \<Rightarrow> bool \<Rightarrow> SimpleCache" where
  "new_SimpleCache ms es =
     \<lparr> cache = [], maxSize = ms, enableStats = es,
       statistics = \<lparr> hits = 0, misses = 0, sets = 0, deletes = 0, evictions = 0 \<rparr> \<rparr>"

text \<open>\<open>_incrementStat(stat)\<close>: counts only when statistics are enabled.\<close>

definition bump :: "stat \<Rightarrow> Statistics \<Rightarrow> Statistics" where
  "bump s st = (case s of
       Hits \<Rightarrow> st\<lparr>hits := hits st + 1\<rparr>
     | Misses \<Rightarrow> st\<lparr>misses := misses st + 1\<rparr>
     | Sets \<Rightarrow> st\<lparr>sets := sets st + 1\<rparr>
     | Deletes \<Rightarrow> st\<lparr>deletes := deletes st + 1\<rparr>
     | Evictions \<Rightarrow> st\<lparr>evictions := evictions st + 1\<rparr>)"

definition incrementStat :: "stat \<Rightarrow> SimpleCache \<Rightarrow> SimpleCache" where
  "incrementStat s c = (if enableStats c then c\<lparr>statistics := bump s (statistics c)\<rparr> else c)"

text \<open>
  \<open>get(key)\<close>; \<open>now\<close> is the value of \<open>Date.now()\<close>. The result is the returned value
  and the cache afterwards.
\<close>

definition SimpleCache_get :: "int \<Rightarrow> SimpleCache \<Rightarrow> string \<Rightarrow> jsval \<times> SimpleCache" where
  "SimpleCache_get now c key =
     (case map_of (cache c) key of
        None \<Rightarrow> (Null, incrementStat Misses c)
      | Some entry \<Rightarrow>
          if expiry entry < now
          then (Null, incrementStat Misses (c\<lparr>cache := Map_delete (cache c) key\<rparr>))
          else (data entry, incrementStat Hits c))"

text \<open>\<open>has(key)\<close>.\<close>

definition SimpleCache_has :: "int \<Rightarrow> SimpleCache \<Rightarrow> string \<Rightarrow> bool \<times> SimpleCache" where
  "SimpleCache_has now c key =
     (case map_of (cache c) key of
        None \<Rightarrow> (False, c)
      | Some entry \<Rightarrow>
          if expiry entry < now
          then (False, c\<lparr>cache := Map_delete (cache c) key\<rparr>)
          else (True, c))"

text \<open>
  \<open>_evictOldest()\<close>: \<open>this.cache.keys().next().value\<close> is the first key in insertion
  order, \<open>undefined\<close> when the map is empty.
\<close>

definition evictOldest :: "SimpleCache \<Rightarrow> SimpleCache" where
  "evictOldest c =
     (case cache c of
        [] \<Rightarrow> c
      | (firstKey, _) # _ \<Rightarrow> incrementStat Evictions (c\<lparr>cache := Map_delete (cache c) firstKey\<rparr>))"

text \<open>\<open>set(key, data, ttl, options)\<close>; \<open>options\<close> is given by its etag and metadata.\<close>

definition SimpleCache_set ::
  "int \<Rightarrow> SimpleCache \<Rightarrow> string \<Rightarrow> jsval \<Rightarrow> int \<Rightarrow> jsval \<Rightarrow> jsval \<Rightarrow> SimpleCache" where
  "SimpleCache_set now c key d ttl opt_etag opt_metadata =
     (let entry = \<lparr> data = d, expiry = now + ttl, createdAt = now,
                     etag = opt_etag, metadata = opt_metadata \<rparr>;
          c1 = (if int (length (cache c)) \<ge> maxSize c \<and> \<not> Map_has (cache c) key
                then evictOldest c else c)
      in incrementStat Sets (c1\<lparr>cache := Map_set (cache c1) key entry\<rparr>))"

text \<open>\<open>delete(key)\<close>.\<close>

definition SimpleCache_delete :: "SimpleCache \<Rightarrow> string \<Rightarrow> bool \<times> SimpleCache" where
  "SimpleCache_delete c key =
     (let existed = Map_has (cache c) key;
          c1 = c\<lparr>cache := Map_delete (cache c) key\<rparr>
      in (existed, if existed then incrementStat Deletes c1 else c1))"

text \<open>The keys of a \<open>Map\<close> are pairwise different.\<close>

definition wf_cache :: "SimpleCache \<Rightarrow> bool" where
  "wf_cache c = distinct (map fst (cache c))"

section \<open>Configuration levels (requestBuilder.js, vortex.js)\<close>

text \<open>
  A response mapper is called with the current data; it returns a value (possibly
  \<open>undefined\<close>) or throws. An error mapper is called with the current error; it returns
  an error, returns \<open>undefined\<close> (\<open>None\<close>) or throws.
\<close>

type_synonym ResponseMapper = "jsval \<Rightarrow> jsval outcome"

type_synonym ErrorMapper = "VortexError \<Rightarrow> VortexError option outcome"

text \<open>
  The value of a level's \<open>responseMapper\<close> or \<open>errorMapper\<close> key: missing or falsy, one
  value, or an array of values; each value is a function or something else.
\<close>

datatype 'f candidate = Fn 'f | NotAFunction

datatype 'f mapper_field = Unset | Single "'f candidate" | Many "'f candidate list"

text \<open>A lifecycle callback; it may throw when called, which the code catches and logs.\<close>

datatype callback = Quiet | Failing

text \<open>The \<open>cache\<close> block of a level (\<open>CacheConfig\<close>); a missing key is \<open>None\<close>.\<close>

record CacheConfig =
  enabled :: "bool option"
  strategy :: "string option"
  ttl :: "int option"

text \<open>
  The data of a merged configuration: what the transport and an error interceptor read.
  \<open>retryCount\<close> is the key \<open>_retryCount\<close> (\<open>None\<close> while it is undefined) and \<open>isRetry\<close>
  the key \<open>_isRetry\<close>; \<open>m_extra\<close> holds keys a retry added (such as \<open>_tokenRefreshed\<close>).
\<close>

record request =
  m_httpMethod :: string
  m_pathParams :: "(string \<times> jsval) list"
  m_searchParams :: "(string \<times> jsval) list"
  m_body :: jsval
  m_headers :: "(string \<times> string) list"
  m_timeout :: int
  m_maxRetries :: int
  m_redirect :: string
  m_cache_enabled :: bool
  m_cache_strategy :: string
  m_cache_ttl :: int
  retryCount :: "int option"
  isRetry :: bool
  m_extra :: "(string \<times> jsval) list"

text \<open>The argument of \<open>retry(overrides)\<close>; a missing key is \<open>None\<close> or the empty object.\<close>

record overrides =
  o_maxRetries :: "int option"
  o_timeout :: "int option"
  o_headers :: "(string \<times> string) list"
  o_pathParams :: "(string \<times> jsval) list"
  o_searchParams :: "(string \<times> jsval) list"
  o_extra :: "(string \<times> jsval) list"

text \<open>
  What an error interceptor does with the \<open>retry\<close> function it is handed: it returns a
  value, throws, or awaits \<open>retry(overrides)\<close> and goes on from the way that call ended.
\<close>

datatype action =
    Return jsval
  | Throw thrown
  | Retry overrides "jsval outcome \<Rightarrow> action"

type_synonym ErrorInterceptor = "VortexError \<Rightarrow> request \<Rightarrow> action"

text \<open>
  One configuration level: the client configuration, an endpoint, a method of an
  endpoint, or the settings of one request. A key that is not set is \<open>None\<close> (\<open>Unset\<close>).
\<close>

record level =
  timeout :: "int option"
  maxRetries :: "int option"
  redirect :: "string option"
  headers :: "(string \<times> string) list option"
  cacheConfig :: "CacheConfig option"
  validateStatus :: "(int \<Rightarrow> bool) option"
  responseMapper :: "ResponseMapper mapper_field"
  errorMapper :: "ErrorMapper mapper_field"
  inheritMappers :: "bool option"
  disableMappers :: "bool option"
  disableResponseMapper :: "bool option"
  disableErrorMapper :: "bool option"
  errorInterceptor :: "ErrorInterceptor option"
  onStart :: "callback option"
  onSuccess :: "callback option"
  onRevalidate :: "callback option"
  onError :: "callback option"
  onFinally :: "callback option"

text \<open>The empty object \<open>{}\<close> as a level.\<close>

definition empty_level :: level where
  "empty_level =
     \<lparr> timeout = None, maxRetries = None, redirect = None, headers = None,
       cacheConfig = None, validateStatus = None, responseMapper = Unset,
       errorMapper = Unset, inheritMappers = None, disableMappers = None,
       disableResponseMapper = None, disableErrorMapper = None, errorInterceptor = None,
       onStart = None, onSuccess = None, onRevalidate = None, onError = None,
       onFinally = None \<rparr>"

text \<open>
  The object spread \<open>{ ...a, ...b }\<close>: the keys of \<open>b\<close> are stored into a copy of \<open>a\<close>,
  a key that is present keeping its place.
\<close>

definition spread :: "(string \<times> 'v) list \<Rightarrow> (string \<times> 'v) list \<Rightarrow> (string \<times> 'v) list" where
  "spread a b = foldl (\<lambda>m p. Map_set m (fst p) (snd p)) a b"

text \<open>One key of \<open>{ ...a, ...b }\<close>: the value in \<open>b\<close> when \<open>b\<close> has the key.\<close>

definition key_spread :: "'a option \<Rightarrow> 'a option \<Rightarrow> 'a option" where
  "key_spread a b = (case b of None \<Rightarrow> a | Some v \<Rightarrow> Some v)"

definition field_spread :: "'f mapper_field \<Rightarrow> 'f mapper_field \<Rightarrow> 'f mapper_field" where
  "field_spread a b = (case b of Unset \<Rightarrow> a | _ \<Rightarrow> b)"

text \<open>\<open>{ ...a, ...b }\<close> for two levels, key by key.\<close>

definition level_spread :: "level \<Rightarrow> level \<Rightarrow> level" where
  "level_spread a b =
     \<lparr> timeout = key_spread (timeout a) (timeout b),
       maxRetries = key_spread (maxRetries a) (maxRetries b),
       redirect = key_spread (redirect a) (redirect b),
       headers = key_spread (headers a) (headers b),
       cacheConfig = key_spread (cacheConfig a) (cacheConfig b),
       validateStatus = key_spread (validateStatus a) (validateStatus b),
       responseMapper = field_spread (responseMapper a) (responseMapper b),
       errorMapper = field_spread (errorMapper a) (errorMapper b),
       inheritMappers = key_spread (inheritMappers a) (inheritMappers b),
       disableMappers = key_spread (disableMappers a) (disableMappers b),
       disableResponseMapper = key_spread (disableResponseMapper a) (disableResponseMapper b),
       disableErrorMapper = key_spread (disableErrorMapper a) (disableErrorMapper b),
       errorInterceptor = key_spread (errorInterceptor a) (errorInterceptor b),
       onStart = key_spread (onStart a) (onStart b),
       onSuccess = key_spread (onSuccess a) (onSuccess b),
       onRevalidate = key_spread (onRevalidate a) (onRevalidate b),
       onError = key_spread (onError a) (onError b),
       onFinally = key_spread (onFinally a) (onFinally b) \<rparr>"

section \<open>The request builder (requestBuilder.js, class RequestBuilder)\<close>

text \<open>\<open>this.requestConfig\<close>.\<close>

record RequestConfig =
  pathParams_of :: "(string \<times> jsval) list"
  searchParams_of :: "(string \<times> jsval) list"
  body_of :: jsval
  settings_of :: level

text \<open>
  The fields of a builder; \<open>_cleanup()\<close> sets the four configurations to \<open>null\<close>
  (\<open>None\<close>).
\<close>

record RequestBuilder =
  httpMethod :: string
  endpointConfig :: "level option"
  methodConfig :: "level option"
  clientConfig :: "level option"
  requestConfig :: "RequestConfig option"

text \<open>The constructor, from the three configurations it looks up.\<close>

definition new_RequestBuilder :: "string \<Rightarrow> level \<Rightarrow> level \<Rightarrow> level \<Rightarrow> RequestBuilder" where
  "new_RequestBuilder method client endpoint meth =
     \<lparr> httpMethod = method, endpointConfig = Some endpoint, methodConfig = Some meth,
       clientConfig = Some client,
       requestConfig = Some \<lparr> pathParams_of = [], searchParams_of = [], body_of = Null,
                              settings_of = empty_level \<rparr> \<rparr>"

text \<open>
  The argument of \<open>pathParams\<close>, \<open>search\<close> and \<open>settings\<close>, by what \<open>typeof\<close> and
  \<open>Array.isArray\<close> tell about it; \<open>'o\<close> is the content of an object that is not an
  array.
\<close>

datatype 'o argument =
    UndefinedArg
  | NullArg
  | BooleanArg bool
  | NumberArg int
  | StringArg string
  | FunctionArg
  | ArrayArg "jsval list"
  | ObjectArg 'o

definition is_nullish :: "'o argument \<Rightarrow> bool" where
  "is_nullish a = (case a of UndefinedArg \<Rightarrow> True | NullArg \<Rightarrow> True | _ \<Rightarrow> False)"

text \<open>\<open>typeof a !== 'object' || Array.isArray(a)\<close>, for an argument that is not nullish.\<close>

definition not_plain_object :: "'o argument \<Rightarrow> bool" where
  "not_plain_object a = (case a of ObjectArg _ \<Rightarrow> False | NullArg \<Rightarrow> False | _ \<Rightarrow> True)"

definition validation_error :: "string \<Rightarrow> thrown" where
  "validation_error msg = VErr (VortexError VALIDATION msg None)"

text \<open>Reading a property of \<open>null\<close>.\<close>

definition type_error :: thrown where
  "type_error = JsError ''TypeError'' ''Cannot read properties of null''"

text \<open>
  The mutators. Each returns how the call ended and the builder afterwards; a call that
  returns hands back \<open>this\<close>, the builder in the second component. Storing into
  \<open>this.requestConfig\<close> after \<open>_cleanup()\<close> has set it to \<open>null\<close> is a \<open>TypeError\<close>.
\<close>

definition pathParams ::
  "(string \<times> jsval) list argument \<Rightarrow> RequestBuilder \<Rightarrow> unit outcome \<times> RequestBuilder" where
  "pathParams params b =
     (if \<not> is_nullish params then
        (if not_plain_object params
         then (Throws (validation_error ''pathParams must be an object''), b)
         else (case (params, requestConfig b) of
                 (ObjectArg ps, Some rc) \<Rightarrow>
                   (Returns (),
                    b\<lparr>requestConfig := Some (rc\<lparr>pathParams_of := spread (pathParams_of rc) ps\<rparr>)\<rparr>)
               | _ \<Rightarrow> (Throws type_error, b)))
      else (Returns (), b))"

definition search ::
  "(string \<times> jsval) list argument \<Rightarrow> RequestBuilder \<Rightarrow> unit outcome \<times> RequestBuilder" where
  "search params b =
     (if \<not> is_nullish params then
        (if not_plain_object params
         then (Throws (validation_error ''search params must be an object''), b)
         else (case (params, requestConfig b) of
                 (ObjectArg ps, Some rc) \<Rightarrow>
                   (Returns (),
                    b\<lparr>requestConfig := Some (rc\<lparr>searchParams_of := spread (searchParams_of rc) ps\<rparr>)\<rparr>)
               | _ \<Rightarrow> (Throws type_error, b)))
      else (Returns (), b))"

definition body :: "jsval \<Rightarrow> RequestBuilder \<Rightarrow> unit outcome \<times> RequestBuilder" where
  "body d b =
     (case requestConfig b of
        None \<Rightarrow> (Throws type_error, b)
      | Some rc \<Rightarrow> (Returns (), b\<lparr>requestConfig := Some (rc\<lparr>body_of := d\<rparr>)\<rparr>))"

definition settings ::
  "level argument \<Rightarrow> RequestBuilder \<Rightarrow> unit outcome \<times> RequestBuilder" where
  "settings s b =
     (if \<not> is_nullish s then
        (if not_plain_object s
         then (Throws (validation_error ''settings must be an object''), b)
         else (case (s, requestConfig b) of
                 (ObjectArg l, Some rc) \<Rightarrow>
                   (Returns (),
                    b\<lparr>requestConfig := Some (rc\<lparr>settings_of := level_spread (settings_of rc) l\<rparr>)\<rparr>)
               | _ \<Rightarrow> (Throws type_error, b)))
      else (Returns (), b))"

text \<open>\<open>_cleanup()\<close>.\<close>

definition cleanup :: "RequestBuilder \<Rightarrow> RequestBuilder" where
  "cleanup b = b\<lparr>requestConfig := None, endpointConfig := None, methodConfig := None,
                  clientConfig := None\<rparr>"

section \<open>Resolving the merged configuration (\<open>_buildFinalConfig\<close>)\<close>

text \<open>\<open>this.clientConfig || {}\<close> and its like.\<close>

definition safe :: "level option \<Rightarrow> level" where
  "safe l = (case l of None \<Rightarrow> empty_level | Some x \<Rightarrow> x)"

text \<open>\<open>this.requestConfig?.settings\<close> and \<open>this.requestConfig?.settings || {}\<close>.\<close>

definition requestSettings :: "RequestBuilder \<Rightarrow> level option" where
  "requestSettings b = map_option settings_of (requestConfig b)"

definition safeRequestSettings :: "RequestBuilder \<Rightarrow> level" where
  "safeRequestSettings b = safe (requestSettings b)"

text \<open>
  A key of \<open>{ ...safeClientConfig, ...safeEndpointConfig, ...safeMethodConfig,
  ...safeRequestSettings }\<close>: the last level that sets it wins.
\<close>

definition merged_key :: "(level \<Rightarrow> 'a option) \<Rightarrow> RequestBuilder \<Rightarrow> 'a option" where
  "merged_key f b =
     key_spread (key_spread (key_spread (f (safe (clientConfig b)))
                                        (f (safe (endpointConfig b))))
                            (f (safe (methodConfig b))))
                (f (safeRequestSettings b))"

definition or_default :: "'a option \<Rightarrow> 'a \<Rightarrow> 'a" where
  "or_default a d = (case a of None \<Rightarrow> d | Some v \<Rightarrow> v)"

text \<open>
  JavaScript's \<open>a || d\<close> for a number or \<open>undefined\<close> on the left (\<open>0\<close> and \<open>undefined\<close>
  are falsy), and for a string or \<open>undefined\<close> on the left (the empty string and
  \<open>undefined\<close> are falsy).
\<close>

definition num_or :: "int option \<Rightarrow> int \<Rightarrow> int" where
  "num_or a d = (case a of None \<Rightarrow> d | Some n \<Rightarrow> if n = 0 then d else n)"

definition str_or :: "string option \<Rightarrow> string \<Rightarrow> string" where
  "str_or a d = (case a of None \<Rightarrow> d | Some x \<Rightarrow> if x = [] then d else x)"

text \<open>A key of the merged \<open>cache\<close> block.\<close>

definition cache_key :: "(CacheConfig \<Rightarrow> 'a option) \<Rightarrow> RequestBuilder \<Rightarrow> 'a option" where
  "cache_key f b =
     merged_key (\<lambda>l. case cacheConfig l of None \<Rightarrow> None | Some c \<Rightarrow> f c) b"

text \<open>\<open>safeX.headers || {}\<close>.\<close>

definition headers_or_empty :: "level \<Rightarrow> (string \<times> string) list" where
  "headers_or_empty l = or_default (headers l) []"

text \<open>The hooks of a merged configuration, and the merged configuration.\<close>

record config =
  request_of :: request
  m_validateStatus :: "int \<Rightarrow> bool"
  m_errorInterceptor :: "ErrorInterceptor option"
  m_onStart :: "callback option"
  m_onSuccess :: "callback option"
  m_onRevalidate :: "callback option"
  m_onError :: "callback option"
  m_onFinally :: "callback option"

text \<open>The default status validator: \<open>status >= 200 && status < 300\<close>.\<close>

definition default_validateStatus :: "int \<Rightarrow> bool" where
  "default_validateStatus st = (200 \<le> st \<and> st < 300)"

text \<open>The validator of the merged object before the redirect rule is applied.\<close>

definition originalValidateStatus :: "RequestBuilder \<Rightarrow> int \<Rightarrow> bool" where
  "originalValidateStatus b = or_default (merged_key validateStatus b) default_validateStatus"

text \<open>The \<open>redirect\<close> and \<open>maxRetries\<close> keys of the merged object: the two \<open>||\<close> chains.\<close>

definition resolved_redirect :: "RequestBuilder \<Rightarrow> string" where
  "resolved_redirect b =
     str_or (redirect (safeRequestSettings b))
       (str_or (redirect (safe (methodConfig b)))
          (str_or (redirect (safe (endpointConfig b)))
             (str_or (redirect (safe (clientConfig b))) ''follow'')))"

definition resolved_maxRetries :: "RequestBuilder \<Rightarrow> int" where
  "resolved_maxRetries b =
     num_or (maxRetries (safeRequestSettings b))
       (num_or (maxRetries (safe (methodConfig b)))
          (num_or (maxRetries (safe (endpointConfig b)))
             (num_or (maxRetries (safe (clientConfig b))) 10)))"

definition buildFinalConfig :: "RequestBuilder \<Rightarrow> config" where
  "buildFinalConfig b =
     \<lparr> request_of =
         \<lparr> m_httpMethod = httpMethod b,
           m_pathParams = (case requestConfig b of None \<Rightarrow> [] | Some rc \<Rightarrow> pathParams_of rc),
           m_searchParams = (case requestConfig b of None \<Rightarrow> [] | Some rc \<Rightarrow> searchParams_of rc),
           m_body = (case requestConfig b of None \<Rightarrow> Null
                     | Some rc \<Rightarrow> if body_of rc = Undefined then Null else body_of rc),
           m_headers =
             spread (spread (spread (headers_or_empty (safe (clientConfig b)))
                                    (headers_or_empty (safe (endpointConfig b))))
                            (headers_or_empty (safe (methodConfig b))))
                    (headers_or_empty (safeRequestSettings b)),
           m_timeout = or_default (merged_key timeout b) 30000,
           m_maxRetries = resolved_maxRetries b,
           m_redirect = resolved_redirect b,
           m_cache_enabled = or_default (cache_key enabled b) False,
           m_cache_strategy = or_default (cache_key strategy b) ''simple'',
           m_cache_ttl = or_default (cache_key ttl b) 60000,
           retryCount = None,
           isRetry = False,
           m_extra = [] \<rparr>,
       m_validateStatus =
         (if resolved_redirect b = ''manual''
          then (\<lambda>st. if 300 \<le> st \<and> st < 400 then True else originalValidateStatus b st)
          else originalValidateStatus b),
       m_errorInterceptor = merged_key errorInterceptor b,
       m_onStart = merged_key onStart b,
       m_onSuccess = merged_key onSuccess b,
       m_onRevalidate = merged_key onRevalidate b,
       m_onError = merged_key onError b,
       m_onFinally = merged_key onFinally b \<rparr>"

section \<open>The mapper pipeline\<close>

text \<open>The functions among the values of a level's mapper key, in order.\<close>

fun functions_of :: "'f candidate list \<Rightarrow> 'f list" where
  "functions_of [] = []"
| "functions_of (Fn f # cs) = f # functions_of cs"
| "functions_of (NotAFunction # cs) = functions_of cs"

definition levelMappers :: "'f mapper_field \<Rightarrow> 'f list" where
  "levelMappers fld =
     (case fld of Unset \<Rightarrow> [] | Single c \<Rightarrow> functions_of [c] | Many cs \<Rightarrow> functions_of cs)"

text \<open>
  One round of the loop of \<open>_collectMappers\<close>: a level that is \<open>null\<close> is skipped; a
  level with \<open>inheritMappers === false\<close> empties the list; then the level's own mappers
  are pushed with the level's name.
\<close>

definition collect_level ::
  "(level \<Rightarrow> 'f mapper_field) \<Rightarrow> ('f \<times> string) list \<Rightarrow> level option \<times> string
   \<Rightarrow> ('f \<times> string) list" where
  "collect_level fld mappers lv =
     (case fst lv of
        None \<Rightarrow> mappers
      | Some cfg \<Rightarrow>
          (if inheritMappers cfg = Some False \<and> length mappers > 0 then [] else mappers)
          @ map (\<lambda>f. (f, snd lv)) (levelMappers (fld cfg)))"

text \<open>The levels in the order the loop visits them.\<close>

definition levels :: "RequestBuilder \<Rightarrow> (level option \<times> string) list" where
  "levels b =
     [(clientConfig b, ''client''), (endpointConfig b, ''endpoint''),
      (methodConfig b, ''method''), (requestSettings b, ''request'')]"

definition collectMappers ::
  "(level \<Rightarrow> 'f mapper_field) \<Rightarrow> RequestBuilder \<Rightarrow> ('f \<times> string) list" where
  "collectMappers fld b = foldl (collect_level fld) [] (levels b)"

datatype mapper_type = ResponseType | ErrorType

text \<open>\<open>_areMappersDisabled(type)\<close>.\<close>

definition level_disables :: "mapper_type \<Rightarrow> level option \<Rightarrow> bool" where
  "level_disables ty lv =
     (case lv of
        None \<Rightarrow> False
      | Some l \<Rightarrow>
          disableMappers l = Some True
          \<or> (ty = ResponseType \<and> disableResponseMapper l = Some True)
          \<or> (ty = ErrorType \<and> disableErrorMapper l = Some True))"

definition areMappersDisabled :: "mapper_type \<Rightarrow> RequestBuilder \<Rightarrow> bool" where
  "areMappersDisabled ty b =
     (level_disables ty (requestSettings b) \<or> level_disables ty (methodConfig b)
      \<or> level_disables ty (endpointConfig b) \<or> level_disables ty (clientConfig b))"

text \<open>
  One stage of \<open>_applyResponseMappers\<close>: the mapper's result replaces the current data
  unless it is \<open>undefined\<close>; a throw is caught and the current data kept.
\<close>

definition response_stage :: "jsval \<Rightarrow> ResponseMapper \<times> string \<Rightarrow> jsval" where
  "response_stage currentData st =
     (case fst st currentData of
        Returns r \<Rightarrow> if r \<noteq> Undefined then r else currentData
      | Throws _ \<Rightarrow> currentData)"

definition applyResponseMappers :: "jsval \<Rightarrow> RequestBuilder \<Rightarrow> jsval" where
  "applyResponseMappers d b =
     (if areMappersDisabled ResponseType b then d
      else foldl response_stage d (collectMappers responseMapper b))"

definition error_stage :: "VortexError \<Rightarrow> ErrorMapper \<times> string \<Rightarrow> VortexError" where
  "error_stage currentError st =
     (case fst st currentError of
        Returns (Some r) \<Rightarrow> r
      | Returns None \<Rightarrow> currentError
      | Throws _ \<Rightarrow> currentError)"

definition applyErrorMappers :: "VortexError \<Rightarrow> RequestBuilder \<Rightarrow> VortexError" where
  "applyErrorMappers err b =
     (if areMappersDisabled ErrorType b then err
      else foldl error_stage err (collectMappers errorMapper b))"

section \<open>Executing a request\<close>

text \<open>
  What a request does to the world outside the builder is kept as a list of events: a
  call of the transport (with the attempt's \<open>_retryCount || 0\<close>) and the calls of the
  lifecycle callbacks with their arguments.
\<close>

datatype event =
    Transport int
  | OnStart
  | OnSuccess jsval
  | OnRevalidate jsval
  | OnError VortexError
  | OnFinally

text \<open>
  The state a request works on: the builder (\<open>this\<close>), the events so far, the state of
  the cache instance, and the static map \<open>RequestBuilder.inflightRequests\<close>. A promise
  found in that map was made by \<open>_handleStaleWhileRevalidate\<close> and never rejects; it is
  kept as the value it resolves with.
\<close>

record 'c world =
  builder :: RequestBuilder
  events :: "event list"
  cacheInstance :: 'c
  inflightRequests :: "(string \<times> jsval) list"

text \<open>The body of a response as \<open>_parseResponseBody\<close> reads it: a value, or a parse failure.\<close>

datatype parsed = Parsed jsval | Unparseable

text \<open>
  How \<open>_executeFetchRequest\<close> ends: the request could not be built and the transport
  was not called (an unresolved path parameter, a body that does not serialise); the
  transport was called and failed (classified as NETWORK, TIMEOUT or ABORT); or it
  answered with a status and a body.
\<close>

datatype transport_result =
    NotSent VortexError
  | Failed VortexError
  | Response int parsed

text \<open>
  The collaborators of the core: the network (its answer to the n-th call of the
  transport for a request), the cache instance behind the \<open>CacheInterface\<close> (\<open>get\<close> and
  \<open>set\<close> on a cache state \<open>'c\<close>), and the cache key of a request
  (\<open>_generateCacheKey\<close>).
\<close>

record 'c env =
  transport :: "nat \<Rightarrow> request \<Rightarrow> transport_result"
  cache_get :: "'c \<Rightarrow> string \<Rightarrow> jsval outcome \<times> 'c"
  cache_set :: "'c \<Rightarrow> string \<Rightarrow> jsval \<Rightarrow> int \<Rightarrow> unit outcome \<times> 'c"
  generateCacheKey :: "request \<Rightarrow> string"

definition log :: "event \<Rightarrow> 'c world \<Rightarrow> 'c world" where
  "log ev w = w\<lparr>events := events w @ [ev]\<rparr>"

text \<open>\<open>if (typeof cb === 'function') { try { cb(...) } catch { console.warn(...) } }\<close>.\<close>

definition call :: "callback option \<Rightarrow> event \<Rightarrow> 'c world \<Rightarrow> 'c world" where
  "call cb ev w = (case cb of None \<Rightarrow> w | Some _ \<Rightarrow> log ev w)"

text \<open>The retry counts of the transport calls among the events, in order.\<close>

fun transports :: "event list \<Rightarrow> int list" where
  "transports [] = []"
| "transports (Transport rc # evs) = rc # transports evs"
| "transports (_ # evs) = transports evs"

text \<open>\<open>s.includes(sub)\<close>.\<close>

fun str_includes :: "string \<Rightarrow> string \<Rightarrow> bool" where
  "str_includes [] sub = (sub = [])"
| "str_includes (c # cs) sub = (take (length sub) (c # cs) = sub \<or> str_includes cs sub)"

text \<open>\<open>VortexError.fromError(error, type)\<close> (error.js).\<close>

fun fromError :: "thrown \<Rightarrow> error_type \<Rightarrow> VortexError" where
  "fromError (VErr e) ty = e"
| "fromError (JsError name msg) ty =
     (if name = ''AbortError''
      then VortexError ABORT (if msg = [] then ''Request was cancelled'' else msg) None
      else if name = ''TimeoutError'' \<or> str_includes msg ''timeout''
      then VortexError TIMEOUT (if msg = [] then ''Request timed out'' else msg) None
      else VortexError ty (if msg = [] then ''An unknown error occurred'' else msg) None)"

text \<open>What the \<open>catch\<close> around the error interceptor makes of a thrown value.\<close>

fun interceptedError :: "thrown \<Rightarrow> VortexError" where
  "interceptedError (VErr e) = e"
| "interceptedError (JsError name msg) =
     VortexError CONFIG (''Error interceptor failed: '' @ msg) None"

text \<open>
  \<open>_executeFetch\<close>, for a configuration without request and response interceptors and
  without progress callbacks (the \<open>fetch\<close> path): the lookup in the cache under the
  simple strategy, the call of the transport, the status check, the 204 rule, the body,
  and the store into the cache.
\<close>

definition simple_lookup :: "'c env \<Rightarrow> config \<Rightarrow> 'c world \<Rightarrow> jsval option \<times> 'c world" where
  "simple_lookup env cfg w =
     (if m_cache_enabled (request_of cfg) \<and> m_cache_strategy (request_of cfg) = ''simple''
      then (case cache_get env (cacheInstance w) (generateCacheKey env (request_of cfg)) of
              (Returns cached, c') \<Rightarrow>
                (if cached \<noteq> Null then Some cached else None, w\<lparr>cacheInstance := c'\<rparr>)
            | (Throws _, c') \<Rightarrow> (None, w\<lparr>cacheInstance := c'\<rparr>))
      else (None, w))"

definition store :: "'c env \<Rightarrow> config \<Rightarrow> jsval \<Rightarrow> 'c world \<Rightarrow> 'c world" where
  "store env cfg responseData w =
     (if m_cache_enabled (request_of cfg) \<and> responseData \<noteq> Null
      then w\<lparr>cacheInstance :=
               snd (cache_set env (cacheInstance w) (generateCacheKey env (request_of cfg))
                      responseData (m_cache_ttl (request_of cfg)))\<rparr>
      else w)"

definition http_error :: "int \<Rightarrow> thrown" where
  "http_error st = VErr (VortexError HTTP ''HTTP error'' (Some st))"

definition parse_error :: thrown where
  "parse_error = VErr (VortexError PARSE ''Invalid JSON response'' None)"

definition executeFetch :: "'c env \<Rightarrow> config \<Rightarrow> 'c world \<Rightarrow> jsval outcome \<times> 'c world" where
  "executeFetch env cfg w =
     (case simple_lookup env cfg w of
        (Some cached, w1) \<Rightarrow> (Returns cached, w1)
      | (None, w1) \<Rightarrow>
          (case transport env (length (transports (events w1))) (request_of cfg) of
             NotSent e \<Rightarrow> (Throws (VErr e), w1)
           | Failed e \<Rightarrow>
               (Throws (VErr e), log (Transport (num_or (retryCount (request_of cfg)) 0)) w1)
           | Response st bd \<Rightarrow>
               (let w2 = log (Transport (num_or (retryCount (request_of cfg)) 0)) w1 in
                if \<not> m_validateStatus cfg st then (Throws (http_error st), w2)
                else if st = 204 then (Returns Null, w2)
                else (case bd of
                        Unparseable \<Rightarrow> (Throws parse_error, w2)
                      | Parsed responseData \<Rightarrow>
                          (Returns responseData, store env cfg responseData w2)))))"

text \<open>
  The configuration of a retry: \<open>{ ...originalConfig, ...overrides, headers: {...},
  pathParams: {...}, searchParams: {...}, _retryCount: retryCount + 1, _isRetry: true }\<close>.
\<close>

definition retryConfig :: "config \<Rightarrow> overrides \<Rightarrow> config" where
  "retryConfig originalConfig ov =
     originalConfig\<lparr>request_of :=
       (request_of originalConfig)
         \<lparr>m_maxRetries := or_default (o_maxRetries ov) (m_maxRetries (request_of originalConfig)),
          m_timeout := or_default (o_timeout ov) (m_timeout (request_of originalConfig)),
          m_extra := spread (m_extra (request_of originalConfig)) (o_extra ov),
          m_headers := spread (m_headers (request_of originalConfig)) (o_headers ov),
          m_pathParams := spread (m_pathParams (request_of originalConfig)) (o_pathParams ov),
          m_searchParams := spread (m_searchParams (request_of originalConfig)) (o_searchParams ov),
          retryCount := Some (num_or (retryCount (request_of originalConfig)) 0 + 1),
          isRetry := True\<rparr>\<rparr>"

text \<open>\<open>retry()\<close> with no argument: \<open>overrides = {}\<close>.\<close>

definition no_overrides :: overrides where
  "no_overrides = \<lparr> o_maxRetries = None, o_timeout = None, o_headers = [], o_pathParams = [],
                     o_searchParams = [], o_extra = [] \<rparr>"

text \<open>
  \<open>_createRetryFunction(originalConfig)\<close>; \<open>again\<close> stands for
  \<open>this._executeRequestAndHandleCallbacks\<close>.
\<close>

definition createRetryFunction ::
  "(config \<Rightarrow> 'w \<Rightarrow> (jsval outcome \<times> 'w) option) \<Rightarrow> config \<Rightarrow> overrides \<Rightarrow> 'w
   \<Rightarrow> (jsval outcome \<times> 'w) option" where
  "createRetryFunction again originalConfig ov w =
     (if num_or (retryCount (request_of originalConfig)) 0
           \<ge> num_or (Some (m_maxRetries (request_of originalConfig))) 10
      then Some (Returns Undefined, w)
      else again (retryConfig originalConfig ov) w)"

text \<open>Running an error interceptor against a \<open>retry\<close> function.\<close>

primrec run_interceptor ::
  "(overrides \<Rightarrow> 'w \<Rightarrow> (jsval outcome \<times> 'w) option) \<Rightarrow> action \<Rightarrow> 'w
   \<Rightarrow> (jsval outcome \<times> 'w) option" where
  "run_interceptor retry (Return v) w = Some (Returns v, w)"
| "run_interceptor retry (Throw x) w = Some (Throws x, w)"
| "run_interceptor retry (Retry ov k) w =
     (case retry ov w of
        None \<Rightarrow> None
      | Some rw \<Rightarrow> run_interceptor retry (k (fst rw)) (snd rw))"

text \<open>
  The end of the \<open>catch\<close> block of \<open>_executeRequestAndHandleCallbacks\<close>: the error
  mappers, the \<open>onError\<close> callback, the throw.
\<close>

definition reject :: "config \<Rightarrow> VortexError \<Rightarrow> 'c world \<Rightarrow> jsval outcome \<times> 'c world" where
  "reject cfg finalError w =
     (let mapped = applyErrorMappers finalError (builder w)
      in (Throws (VErr mapped), call (m_onError cfg) (OnError mapped) w))"

text \<open>The \<open>finally\<close> block: the \<open>onFinally\<close> callback and \<open>this._cleanup()\<close>.\<close>

definition finally_block :: "config \<Rightarrow> 'c world \<Rightarrow> 'c world" where
  "finally_block cfg w =
     (let w1 = call (m_onFinally cfg) OnFinally w in w1\<lparr>builder := cleanup (builder w1)\<rparr>)"

text \<open>
  \<open>_executeRequestAndHandleCallbacks(mergedConfig)\<close>. An interceptor may widen the retry
  budget with each retry, so the recursion through \<open>retry\<close> is bounded by fuel: \<open>None\<close>
  means the fuel ran out.
\<close>

primrec executeRequestAndHandleCallbacks ::
  "nat \<Rightarrow> 'c env \<Rightarrow> config \<Rightarrow> 'c world \<Rightarrow> (jsval outcome \<times> 'c world) option" where
  "executeRequestAndHandleCallbacks 0 env mergedConfig w = None"
| "executeRequestAndHandleCallbacks (Suc n) env mergedConfig w =
     (case executeFetch env mergedConfig w of
        (Returns responseData, w1) \<Rightarrow>
          (let mapped = applyResponseMappers responseData (builder w1)
           in Some (Returns mapped,
                    finally_block mergedConfig
                      (call (m_onSuccess mergedConfig) (OnSuccess mapped) w1)))
      | (Throws error, w1) \<Rightarrow>
          (case m_errorInterceptor mergedConfig of
             None \<Rightarrow>
               Some (apsnd (finally_block mergedConfig)
                       (reject mergedConfig (fromError error NETWORK) w1))
           | Some interceptor \<Rightarrow>
               (case run_interceptor
                       (createRetryFunction (executeRequestAndHandleCallbacks n env) mergedConfig)
                       (interceptor (fromError error NETWORK) (request_of mergedConfig)) w1 of
                  None \<Rightarrow> None
                | Some (Returns interceptResult, w2) \<Rightarrow>
                    if interceptResult \<noteq> Undefined
                    then Some (Returns interceptResult, finally_block mergedConfig w2)
                    else Some (apsnd (finally_block mergedConfig)
                                 (reject mergedConfig (fromError error NETWORK) w2))
                | Some (Throws thrown_value, w2) \<Rightarrow>
                    Some (apsnd (finally_block mergedConfig)
                            (reject mergedConfig (interceptedError thrown_value) w2)))))"

text \<open>
  \<open>_handleStaleWhileRevalidate(config)\<close>, with the refresh run to its end: the world
  returned is the one after the refresh has settled, also when the stale data is what the
  caller gets.
\<close>

definition handleStaleWhileRevalidate ::
  "nat \<Rightarrow> 'c env \<Rightarrow> config \<Rightarrow> 'c world \<Rightarrow> (jsval outcome \<times> 'c world) option" where
  "handleStaleWhileRevalidate n env cfg w =
     (let cacheKey = generateCacheKey env (request_of cfg);
          revalidationKey = ''revalidate::'' @ cacheKey
      in case cache_get env (cacheInstance w) cacheKey of
           (Throws _, c') \<Rightarrow>
             executeRequestAndHandleCallbacks n env cfg (w\<lparr>cacheInstance := c'\<rparr>)
         | (Returns staleData, c') \<Rightarrow>
             (case map_of (inflightRequests w) revalidationKey of
                Some pending \<Rightarrow>
                  Some (Returns (if staleData \<noteq> Null then staleData else pending),
                        w\<lparr>cacheInstance := c'\<rparr>)
              | None \<Rightarrow>
                  (case executeRequestAndHandleCallbacks n env cfg (w\<lparr>cacheInstance := c'\<rparr>) of
                     None \<Rightarrow> None
                   | Some (refreshed, w1) \<Rightarrow>
                       (let settled =
                              (case refreshed of
                                 Returns freshData \<Rightarrow>
                                   (freshData,
                                    if freshData \<noteq> Undefined
                                    then call (m_onRevalidate cfg) (OnRevalidate freshData) w1
                                    else w1)
                               | Throws _ \<Rightarrow> (Null, w1));
                            w2 = (snd settled)
                                   \<lparr>inflightRequests :=
                                      Map_delete (inflightRequests (snd settled)) revalidationKey\<rparr>
                        in Some (Returns (if staleData \<noteq> Null then staleData else fst settled),
                                 w2)))))"

text \<open>\<open>send()\<close>.\<close>

definition send :: "nat \<Rightarrow> 'c env \<Rightarrow> 'c world \<Rightarrow> (jsval outcome \<times> 'c world) option" where
  "send n env w =
     (let mergedConfig = buildFinalConfig (builder w);
          w1 = call (m_onStart mergedConfig) OnStart w
      in case (if m_cache_enabled (request_of mergedConfig)
                  \<and> m_cache_strategy (request_of mergedConfig) = ''swr''
               then handleStaleWhileRevalidate n env mergedConfig w1
               else executeRequestAndHandleCallbacks n env mergedConfig w1) of
           None \<Rightarrow> None
         | Some (Returns v, w2) \<Rightarrow> Some (Returns v, w2)
         | Some (Throws x, w2) \<Rightarrow> Some (Throws x, w2\<lparr>builder := cleanup (builder w2)\<rparr>))"

text \<open>
  The built-in cache behind the cache interface, at a fixed reading \<open>now\<close> of the
  clock.
\<close>

definition SimpleCache_env ::
  "int \<Rightarrow> (nat \<Rightarrow> request \<Rightarrow> transport_result) \<Rightarrow> (request \<Rightarrow> string) \<Rightarrow> SimpleCache env" where
  "SimpleCache_env now net keygen =
     \<lparr> transport = net,
       cache_get = (\<lambda>c k. apfst Returns (SimpleCache_get now c k)),
       cache_set = (\<lambda>c k v lifetime. (Returns (), SimpleCache_set now c k v lifetime Undefined Undefined)),
       generateCacheKey = keygen \<rparr>"

section \<open>Vocabulary for the properties of request execution\<close>

text \<open>An interceptor action that ends without a further call of \<open>retry\<close>.\<close>

fun is_final :: "action \<Rightarrow> bool" where
  "is_final (Return v) = True"
| "is_final (Throw x) = True"
| "is_final (Retry ov k) = False"

text \<open>
  An answer of \<open>_executeFetchRequest\<close> that makes the attempt fail after the transport
  was called: the transport failed, the status is invalid, or the body does not parse.
\<close>

definition failing :: "(int \<Rightarrow> bool) \<Rightarrow> transport_result \<Rightarrow> bool" where
  "failing valid res =
     (case res of
        NotSent _ \<Rightarrow> False
      | Failed _ \<Rightarrow> True
      | Response st bd \<Rightarrow> \<not> valid st \<or> (st \<noteq> 204 \<and> bd = Unparseable))"

text \<open>A cache instance whose \<open>get\<close> never produces a value other than \<open>null\<close>.\<close>

definition never_hits :: "'c env \<Rightarrow> bool" where
  "never_hits env = (\<forall>c k v. fst (cache_get env c k) = Returns v \<longrightarrow> v = Null)"

text \<open>
  The configuration of the attempt with retry count \<open>k\<close> when every retry was asked for
  without overrides.
\<close>

definition attempt :: "config \<Rightarrow> int \<Rightarrow> config" where
  "attempt cfg k =
     (if k = 0 then cfg
      else cfg\<lparr>request_of := (request_of cfg)\<lparr>retryCount := Some k, isRetry := True\<rparr>\<rparr>)"

text \<open>
  What \<open>_executeRequestAndHandleCallbacks\<close> does once the error interceptor has
  settled: the three branches after \<open>await mergedConfig.errorInterceptor(...)\<close>.
\<close>

definition after_interceptor ::
  "config \<Rightarrow> VortexError \<Rightarrow> jsval outcome \<times> 'c world \<Rightarrow> jsval outcome \<times> 'c world" where
  "after_interceptor cfg finalError rw =
     (case fst rw of
        Returns interceptResult \<Rightarrow>
          if interceptResult \<noteq> Undefined
          then (Returns interceptResult, finally_block cfg (snd rw))
          else apsnd (finally_block cfg) (reject cfg finalError (snd rw))
      | Throws thrown_value \<Rightarrow>
          apsnd (finally_block cfg) (reject cfg (interceptedError thrown_value) (snd rw)))"

section \<open>Concrete scenarios\<close>

text \<open>
  A server that answers every call with status 500, the cache key of \<open>GET /users\<close>, a
  client-level cache block that turns stale-while-revalidate on, and the world of a new
  \<open>GET\<close> builder for a client configuration and a state of the built-in cache.
\<close>

definition always_500 :: "nat \<Rightarrow> request \<Rightarrow> transport_result" where
  "always_500 i q = Response 500 (Parsed (Str ''Server Error''))"

definition users_key :: "request \<Rightarrow> string" where
  "users_key q = m_httpMethod q @ ''::https://api.example.com/users''"

definition swr_cache :: CacheConfig where
  "swr_cache = \<lparr> enabled = Some True, strategy = Some ''swr'', ttl = None \<rparr>"

definition new_world :: "level \<Rightarrow> 'c \<Rightarrow> 'c world" where
  "new_world client c =
     \<lparr> builder = new_RequestBuilder ''GET'' client empty_level empty_level, events = [],
       cacheInstance = c, inflightRequests = [] \<rparr>"

text \<open>
  A custom cache instance whose \<open>get\<close> rejects and whose \<open>set\<close> does nothing (the
  \<open>faultyCacheInstance\<close> of the repository's tests).
\<close>

definition faulty_cache_env ::
  "(nat \<Rightarrow> request \<Rightarrow> transport_result) \<Rightarrow> (request \<Rightarrow> string) \<Rightarrow> unit env" where
  "faulty_cache_env net keygen =
     \<lparr> transport = net,
       cache_get = (\<lambda>c k. (Throws (JsError ''Error'' ''Cache read failed''), c)),
       cache_set = (\<lambda>c k v lifetime. (Returns (), c)),
       generateCacheKey = keygen \<rparr>"

section \<open>Properties of the built-in cache\<close>

lemma cache_incrementStat [simp]: "cache (incrementStat s c) = cache c"
  by (simp add: incrementStat_def)

lemma maxSize_incrementStat [simp]: "maxSize (incrementStat s c) = maxSize c"
  by (simp add: incrementStat_def)

lemma length_Map_set:
  "length (Map_set m k v) = (if Map_has m k then length m else Suc (length m))"
  by (induction m) (auto simp: Map_has_def)

lemma Map_set_absent: "\<not> Map_has m k \<Longrightarrow> Map_set m k v = m @ [(k, v)]"
  by (induction m) (auto simp: Map_has_def)

lemma keys_Map_set_present: "Map_has m k \<Longrightarrow> map fst (Map_set m k v) = map fst m"
  by (induction m) (auto simp: Map_has_def)

lemma Map_delete_first:
  "distinct (map fst ((k, v) # m)) \<Longrightarrow> Map_delete ((k, v) # m) k = m"
  by (auto simp: Map_delete_def filter_id_conv rev_image_eqI)

lemma keys_Map_set: "fst ` set (Map_set m k v) = insert k (fst ` set m)"
proof (induction m)
  case Nil
  show ?case by simp
next
  case (Cons p m)
  obtain k' v' where p: "p = (k', v')" by (cases p)
  show ?case using Cons.IH by (simp add: p insert_commute)
qed

lemma distinct_keys_Map_set:
  "distinct (map fst m) \<Longrightarrow> distinct (map fst (Map_set m k v))"
proof (induction m)
  case Nil
  then show ?case by simp
next
  case (Cons p m)
  obtain k' v' where p: "p = (k', v')" by (cases p)
  show ?case
  proof (cases "k' = k")
    case True
    with Cons.prems p show ?thesis by simp
  next
    case False
    from Cons.prems p have "k' \<notin> fst ` set m" and "distinct (map fst m)" by simp_all
    with Cons.IH False have "k' \<notin> fst ` set (Map_set m k v)"
      and "distinct (map fst (Map_set m k v))"
      by (simp_all add: keys_Map_set)
    with p False show ?thesis by simp
  qed
qed

lemma distinct_keys_Map_delete:
  "distinct (map fst m) \<Longrightarrow> distinct (map fst (Map_delete m k))"
  by (simp add: Map_delete_def distinct_map_filter)

lemma Map_has_tail:
  "\<not> Map_has (p # m) k \<Longrightarrow> \<not> Map_has m k"
  by (cases p) (auto simp: Map_has_def split: if_splits)

lemma get_fresh_entry:
  "map_of (cache c) key = Some entry \<Longrightarrow> \<not> expiry entry < now \<Longrightarrow>
   fst (SimpleCache_get now c key) = data entry \<and> fst (SimpleCache_has now c key)"
  by (simp add: SimpleCache_get_def SimpleCache_has_def)

lemma get_expired_entry_removed:
  "map_of (cache c) key = Some entry \<Longrightarrow> expiry entry < now \<Longrightarrow>
   map_of (cache (snd (SimpleCache_get now c key))) key = None"
  by (auto simp: SimpleCache_get_def Map_delete_def map_of_eq_None_iff)

text \<open>
  Claim C4, as the code has it. \<open>get\<close> and \<open>has\<close> test \<open>entry.expiry < Date.now()\<close>:
  an entry is dropped once the clock is strictly past its expiry timestamp; then \<open>get\<close>
  returns \<open>null\<close> and \<open>has\<close> returns \<open>false\<close>.
\<close>

theorem expired_entry_never_returned:
  assumes "map_of (cache c) key = Some entry"
      and "expiry entry < now"
  shows "fst (SimpleCache_get now c key) = Null \<and> fst (SimpleCache_has now c key) = False"
  using assms by (simp add: SimpleCache_get_def SimpleCache_has_def)

theorem expired_entry_never_returned_witness:
  "fst (SimpleCache_get 101
          (SimpleCache_set 90 (new_SimpleCache 1000 False) ''k'' (Str ''v'') 10 Undefined Undefined)
          ''k'') = Null
   \<and> fst (SimpleCache_has 101
          (SimpleCache_set 90 (new_SimpleCache 1000 False) ''k'' (Str ''v'') 10 Undefined Undefined)
          ''k'') = False"
  using expired_entry_never_returned
    [of "SimpleCache_set 90 (new_SimpleCache 1000 False) ''k'' (Str ''v'') 10 Undefined Undefined"
        "''k''"
        "\<lparr> data = Str ''v'', expiry = 100, createdAt = 90, etag = Undefined, metadata = Undefined \<rparr>"
        101]
  by (simp add: SimpleCache_set_def new_SimpleCache_def incrementStat_def Map_has_def)

text \<open>
  Claim C4 as stated fails at the boundary: an entry stored at time 90 with a ttl of 10
  has expiry 100, and at \<open>now = 100\<close> (so \<open>now \<ge> expiry\<close>) \<open>get\<close> still returns its
  value and \<open>has\<close> still returns \<open>true\<close>.
\<close>

theorem expiry_boundary_counterexample:
  "map (\<lambda>p. (fst p, expiry (snd p)))
     (cache (SimpleCache_set 90 (new_SimpleCache 1000 False) ''k'' (Str ''v'') 10 Undefined Undefined))
     = [(''k'', 100)]
   \<and> (100 :: int) \<ge> 100
   \<and> fst (SimpleCache_get 100
          (SimpleCache_set 90 (new_SimpleCache 1000 False) ''k'' (Str ''v'') 10 Undefined Undefined)
          ''k'') = Str ''v''
   \<and> fst (SimpleCache_has 100
          (SimpleCache_set 90 (new_SimpleCache 1000 False) ''k'' (Str ''v'') 10 Undefined Undefined)
          ''k'') = True"
  by (simp add: SimpleCache_set_def SimpleCache_get_def SimpleCache_has_def new_SimpleCache_def
      incrementStat_def Map_has_def)

lemma evictOldest_full:
  assumes "wf_cache c" and "cache c = (k0, e0) # rest"
  shows "cache (evictOldest c) = rest"
    and "evictions (statistics (evictOldest c)) =
         evictions (statistics c) + (if enableStats c then 1 else 0)"
    and "maxSize (evictOldest c) = maxSize c"
    and "enableStats (evictOldest c) = enableStats c"
  using assms Map_delete_first [of k0 e0 rest]
  by (simp_all add: evictOldest_def wf_cache_def incrementStat_def bump_def)

lemma evictions_incrementStat_Sets [simp]:
  "evictions (statistics (incrementStat Sets c)) = evictions (statistics c)"
  by (simp add: incrementStat_def bump_def)

text \<open>
  Claim C9, as the code has it. For a cache whose \<open>maxSize\<close> is at least 1, \<open>set\<close>
  keeps the number of entries within \<open>maxSize\<close>. When the cache is full and the key is
  new, the first entry in insertion order is the one deleted, the new entry goes to the
  end, and the eviction counter goes up by one if statistics are enabled (it stays as it
  is when they are not, which is the default). Storing under a key that is present never
  evicts: the keys stay as they are.
\<close>

theorem set_keeps_capacity:
  assumes wf: "wf_cache c"
      and pos: "1 \<le> maxSize c"
      and inv: "int (length (cache c)) \<le> maxSize c"
  shows "wf_cache (SimpleCache_set now c key d lifetime e m)
       \<and> maxSize (SimpleCache_set now c key d lifetime e m) = maxSize c
       \<and> int (length (cache (SimpleCache_set now c key d lifetime e m))) \<le> maxSize c
       \<and> (if Map_has (cache c) key
          then map fst (cache (SimpleCache_set now c key d lifetime e m)) = map fst (cache c)
             \<and> evictions (statistics (SimpleCache_set now c key d lifetime e m))
                 = evictions (statistics c)
          else if int (length (cache c)) = maxSize c
          then cache c \<noteq> []
             \<and> cache (SimpleCache_set now c key d lifetime e m)
                 = tl (cache c) @ [(key, \<lparr> data = d, expiry = now + lifetime, createdAt = now,
                                            etag = e, metadata = m \<rparr>)]
             \<and> evictions (statistics (SimpleCache_set now c key d lifetime e m))
                 = evictions (statistics c) + (if enableStats c then 1 else 0)
          else cache (SimpleCache_set now c key d lifetime e m)
                 = cache c @ [(key, \<lparr> data = d, expiry = now + lifetime, createdAt = now,
                                       etag = e, metadata = m \<rparr>)]
             \<and> evictions (statistics (SimpleCache_set now c key d lifetime e m))
                 = evictions (statistics c))"
proof (cases "Map_has (cache c) key")
  case True
  then show ?thesis
    using wf inv
    by (simp add: SimpleCache_set_def Let_def wf_cache_def length_Map_set
        keys_Map_set_present)
next
  case absent: False
  show ?thesis
  proof (cases "int (length (cache c)) = maxSize c")
    case full: True
    with pos obtain k0 e0 rest where c: "cache c = (k0, e0) # rest"
      by (cases "cache c") auto
    from absent c have rest_absent: "\<not> Map_has rest key"
      using Map_has_tail by metis
    from wf c have rest_distinct: "distinct (map fst rest)"
      by (simp add: wf_cache_def)
    have rest_new: "distinct (map fst (rest @ [(key, v)]))" for v :: CacheEntry
      using rest_distinct rest_absent
      by (auto simp: Map_has_def map_of_eq_None_iff)
    show ?thesis
      using absent full c rest_new evictOldest_full [OF wf c]
      by (simp add: SimpleCache_set_def Let_def wf_cache_def Map_set_absent [OF rest_absent])
  next
    case room: False
    have new: "distinct (map fst (cache c @ [(key, v)]))" for v :: CacheEntry
      using wf absent by (auto simp: wf_cache_def Map_has_def map_of_eq_None_iff)
    show ?thesis
      using absent room inv new
      by (simp add: SimpleCache_set_def Let_def wf_cache_def Map_set_absent [OF absent])
  qed
qed

text \<open>
  The test "should evict oldest entries when at capacity" of the repository: a cache of
  \<open>maxSize\<close> 2 that holds key1 and key2 receives key3.
\<close>

theorem set_keeps_capacity_witness:
  "wf_cache (SimpleCache_set 2 (SimpleCache_set 1 (new_SimpleCache 2 True)
        ''key1'' (Str ''value1'') 1000 Undefined Undefined)
        ''key2'' (Str ''value2'') 1000 Undefined Undefined)
   \<and> map fst (cache (SimpleCache_set 3
        (SimpleCache_set 2 (SimpleCache_set 1 (new_SimpleCache 2 True)
           ''key1'' (Str ''value1'') 1000 Undefined Undefined)
           ''key2'' (Str ''value2'') 1000 Undefined Undefined)
        ''key3'' (Str ''value3'') 1000 Undefined Undefined)) = [''key2'', ''key3'']
   \<and> evictions (statistics (SimpleCache_set 3
        (SimpleCache_set 2 (SimpleCache_set 1 (new_SimpleCache 2 True)
           ''key1'' (Str ''value1'') 1000 Undefined Undefined)
           ''key2'' (Str ''value2'') 1000 Undefined Undefined)
        ''key3'' (Str ''value3'') 1000 Undefined Undefined)) = 1"
  using set_keeps_capacity
    [of "SimpleCache_set 2 (SimpleCache_set 1 (new_SimpleCache 2 True)
           ''key1'' (Str ''value1'') 1000 Undefined Undefined)
           ''key2'' (Str ''value2'') 1000 Undefined Undefined"
        3 "''key3''" "Str ''value3''" 1000 Undefined Undefined]
  by (simp add: SimpleCache_set_def new_SimpleCache_def incrementStat_def Map_has_def
      wf_cache_def bump_def evictOldest_def Map_delete_def)

text \<open>
  Claim C9 as stated fails in two ways. A cache built with \<open>maxSize: 0\<close> is empty, so it
  holds at most \<open>maxSize\<close> entries; \<open>_evictOldest\<close> finds no first key, and the entry is
  stored all the same, which leaves one entry in a cache of capacity 0. And a cache built
  with the default \<open>enableStats: false\<close> and \<open>maxSize: 1\<close> that holds key1 evicts key1 when
  key2 is stored, but its eviction counter stays 0.
\<close>

theorem set_capacity_counterexample:
  "int (length (cache (new_SimpleCache 0 True))) \<le> maxSize (new_SimpleCache 0 True)
   \<and> length (cache (SimpleCache_set 0 (new_SimpleCache 0 True) ''a'' (Num 1) 1000
               Undefined Undefined)) = 1
   \<and> maxSize (SimpleCache_set 0 (new_SimpleCache 0 True) ''a'' (Num 1) 1000
               Undefined Undefined) = 0
   \<and> map fst (cache (SimpleCache_set 2 (SimpleCache_set 1 (new_SimpleCache 1 False)
        ''key1'' (Str ''value1'') 1000 Undefined Undefined)
        ''key2'' (Str ''value2'') 1000 Undefined Undefined)) = [''key2'']
   \<and> evictions (statistics (SimpleCache_set 2 (SimpleCache_set 1 (new_SimpleCache 1 False)
        ''key1'' (Str ''value1'') 1000 Undefined Undefined)
        ''key2'' (Str ''value2'') 1000 Undefined Undefined)) = 0"
  by (simp add: SimpleCache_set_def new_SimpleCache_def incrementStat_def Map_has_def
      evictOldest_def bump_def Map_delete_def)

section \<open>Properties of the configuration cascade\<close>

lemma safe_simps [simp]: "safe None = empty_level" "safe (Some l) = l"
  by (simp_all add: safe_def)

lemma key_spread_simps [simp]:
  "key_spread a None = a" "key_spread a (Some v) = Some v"
  by (simp_all add: key_spread_def)

text \<open>
  The two \<open>||\<close> chains agree with "the highest level that sets the key wins" as long as no
  level sets \<open>maxRetries\<close> to 0, or \<open>redirect\<close> to the empty string.
\<close>

lemma resolved_maxRetries_without_zero:
  assumes "maxRetries (safeRequestSettings b) \<noteq> Some 0"
      and "maxRetries (safe (methodConfig b)) \<noteq> Some 0"
      and "maxRetries (safe (endpointConfig b)) \<noteq> Some 0"
      and "maxRetries (safe (clientConfig b)) \<noteq> Some 0"
  shows "resolved_maxRetries b = or_default (merged_key maxRetries b) 10"
  using assms
  by (auto simp: resolved_maxRetries_def merged_key_def num_or_def or_default_def
      key_spread_def split: option.splits)

lemma resolved_redirect_without_empty:
  assumes "redirect (safeRequestSettings b) \<noteq> Some []"
      and "redirect (safe (methodConfig b)) \<noteq> Some []"
      and "redirect (safe (endpointConfig b)) \<noteq> Some []"
      and "redirect (safe (clientConfig b)) \<noteq> Some []"
  shows "resolved_redirect b = or_default (merged_key redirect b) ''follow''"
  using assms
  by (auto simp: resolved_redirect_def merged_key_def str_or_def or_default_def
      key_spread_def split: option.splits)

text \<open>The resolved \<open>maxRetries\<close> is never 0.\<close>

lemma resolved_maxRetries_nonzero: "resolved_maxRetries b \<noteq> 0"
  by (simp add: resolved_maxRetries_def num_or_def split: option.splits)

text \<open>
  Claim C1 at a concrete configuration. The client level sets \<open>maxRetries: 5\<close> and the
  request sets \<open>maxRetries: 0\<close> and \<open>timeout: 0\<close> through \<open>settings\<close>. The merged \<open>timeout\<close>
  (a key resolved by the object spread) is the request's 0; the merged \<open>maxRetries\<close> is
  the client's 5, and with no value at the client level it is the default 10.
\<close>

theorem maxRetries_zero_falls_through:
  "m_maxRetries (request_of (buildFinalConfig
      (snd (settings (ObjectArg (empty_level\<lparr>maxRetries := Some 0, timeout := Some 0\<rparr>))
         (new_RequestBuilder ''GET'' (empty_level\<lparr>maxRetries := Some 5\<rparr>)
            empty_level empty_level))))) = 5
   \<and> m_timeout (request_of (buildFinalConfig
      (snd (settings (ObjectArg (empty_level\<lparr>maxRetries := Some 0, timeout := Some 0\<rparr>))
         (new_RequestBuilder ''GET'' (empty_level\<lparr>maxRetries := Some 5\<rparr>)
            empty_level empty_level))))) = 0
   \<and> m_maxRetries (request_of (buildFinalConfig
      (snd (settings (ObjectArg (empty_level\<lparr>maxRetries := Some 0\<rparr>))
         (new_RequestBuilder ''GET'' empty_level empty_level empty_level))))) = 10"
  by (simp add: buildFinalConfig_def resolved_maxRetries_def settings_def is_nullish_def not_plain_object_def
      new_RequestBuilder_def safeRequestSettings_def requestSettings_def level_spread_def
      empty_level_def num_or_def merged_key_def or_default_def)

text \<open>
  Under the manual redirect policy a 302 answer of the transport is not turned into an
  HTTP error: \<open>_executeFetch\<close> returns its parsed body.
\<close>

lemma executeFetch_302_under_manual:
  assumes "m_redirect (request_of (buildFinalConfig b)) = ''manual''"
      and "simple_lookup env (buildFinalConfig b) w = (None, w1)"
      and "transport env (length (transports (events w1))) (request_of (buildFinalConfig b))
             = Response 302 (Parsed v)"
  shows "fst (executeFetch env (buildFinalConfig b) w) = Returns v"
proof -
  have "m_validateStatus (buildFinalConfig b) 302"
    using assms(1) by (simp add: buildFinalConfig_def)
  with assms(2,3) show ?thesis
    by (simp add: executeFetch_def Let_def)
qed

text \<open>
  Claim C6. When the resolved redirect policy is \<open>manual\<close>, the validator of the merged
  configuration accepts every status from 300 to 399 and gives every other status the
  answer of the caller's validator: the \<open>validateStatus\<close> of the request settings when
  they set one, else the method's, else the endpoint's, else the client's, and the
  default \<open>status >= 200 && status < 300\<close> when no level sets one. So 302 is accepted
  whatever that validator says, and a 302 answer of the transport makes \<open>_executeFetch\<close>
  return the parsed body instead of throwing an HTTP error.
\<close>

theorem manual_redirect_accepts_3xx:
  assumes "m_redirect (request_of (buildFinalConfig b)) = ''manual''"
  shows "(\<forall>st. 300 \<le> st \<and> st < 400 \<longrightarrow> m_validateStatus (buildFinalConfig b) st)
       \<and> (\<forall>st. \<not> (300 \<le> st \<and> st < 400) \<longrightarrow>
              m_validateStatus (buildFinalConfig b) st =
                (case Option.bind (requestConfig b) (\<lambda>rc. validateStatus (settings_of rc)) of
                   Some v \<Rightarrow> v st
                 | None \<Rightarrow>
                (case Option.bind (methodConfig b) validateStatus of
                   Some v \<Rightarrow> v st
                 | None \<Rightarrow>
                (case Option.bind (endpointConfig b) validateStatus of
                   Some v \<Rightarrow> v st
                 | None \<Rightarrow>
                (case Option.bind (clientConfig b) validateStatus of
                   Some v \<Rightarrow> v st
                 | None \<Rightarrow> 200 \<le> st \<and> st < 300)))))
       \<and> m_validateStatus (buildFinalConfig b) 302
       \<and> (\<forall>env w w1 v.
             simple_lookup env (buildFinalConfig b) w = (None, w1)
             \<and> transport env (length (transports (events w1))) (request_of (buildFinalConfig b))
                 = Response 302 (Parsed v)
             \<longrightarrow> fst (executeFetch env (buildFinalConfig b) w) = Returns v)"
proof (intro conjI allI impI)
  fix st :: int
  assume "300 \<le> st \<and> st < 400"
  with assms show "m_validateStatus (buildFinalConfig b) st"
    by (simp add: buildFinalConfig_def)
next
  fix st :: int
  assume out: "\<not> (300 \<le> st \<and> st < 400)"
  have "m_validateStatus (buildFinalConfig b) st = originalValidateStatus b st"
    using assms out by (auto simp: buildFinalConfig_def)
  also have "originalValidateStatus b st =
                (case Option.bind (requestConfig b) (\<lambda>rc. validateStatus (settings_of rc)) of
                   Some v \<Rightarrow> v st
                 | None \<Rightarrow>
                (case Option.bind (methodConfig b) validateStatus of
                   Some v \<Rightarrow> v st
                 | None \<Rightarrow>
                (case Option.bind (endpointConfig b) validateStatus of
                   Some v \<Rightarrow> v st
                 | None \<Rightarrow>
                (case Option.bind (clientConfig b) validateStatus of
                   Some v \<Rightarrow> v st
                 | None \<Rightarrow> 200 \<le> st \<and> st < 300))))"
    by (simp add: originalValidateStatus_def merged_key_def or_default_def
        safeRequestSettings_def requestSettings_def safe_def empty_level_def
        default_validateStatus_def key_spread_def split: option.splits)
  finally show "m_validateStatus (buildFinalConfig b) st =
                (case Option.bind (requestConfig b) (\<lambda>rc. validateStatus (settings_of rc)) of
                   Some v \<Rightarrow> v st
                 | None \<Rightarrow>
                (case Option.bind (methodConfig b) validateStatus of
                   Some v \<Rightarrow> v st
                 | None \<Rightarrow>
                (case Option.bind (endpointConfig b) validateStatus of
                   Some v \<Rightarrow> v st
                 | None \<Rightarrow>
                (case Option.bind (clientConfig b) validateStatus of
                   Some v \<Rightarrow> v st
                 | None \<Rightarrow> 200 \<le> st \<and> st < 300))))" .
next
  from assms show "m_validateStatus (buildFinalConfig b) 302"
    by (simp add: buildFinalConfig_def)
next
  fix env :: "'c env" and w w1 :: "'c world" and v
  assume "simple_lookup env (buildFinalConfig b) w = (None, w1)
          \<and> transport env (length (transports (events w1))) (request_of (buildFinalConfig b))
              = Response 302 (Parsed v)"
  with assms show "fst (executeFetch env (buildFinalConfig b) w) = Returns v"
    using executeFetch_302_under_manual [of b env w w1 v] by simp
qed

text \<open>
  A method that sets \<open>redirect: 'manual'\<close> under a client whose validator accepts 2xx
  only: 302 and 204 are valid, 404 is not. And a request whose settings bring a validator
  that accepts 404 only, over a method validator that accepts 500 only and a client that
  accepts 2xx and sets \<open>redirect: 'manual'\<close>: 302 and 404 are valid, 200 and 500 are not.
\<close>

theorem manual_redirect_accepts_3xx_witness:
  "m_redirect (request_of (buildFinalConfig
      (new_RequestBuilder ''POST''
         (empty_level\<lparr>validateStatus := Some (\<lambda>st. 200 \<le> st \<and> st < 300)\<rparr>)
         empty_level (empty_level\<lparr>redirect := Some ''manual''\<rparr>)))) = ''manual''
   \<and> m_validateStatus (buildFinalConfig
      (new_RequestBuilder ''POST''
         (empty_level\<lparr>validateStatus := Some (\<lambda>st. 200 \<le> st \<and> st < 300)\<rparr>)
         empty_level (empty_level\<lparr>redirect := Some ''manual''\<rparr>))) 302
   \<and> m_validateStatus (buildFinalConfig
      (new_RequestBuilder ''POST''
         (empty_level\<lparr>validateStatus := Some (\<lambda>st. 200 \<le> st \<and> st < 300)\<rparr>)
         empty_level (empty_level\<lparr>redirect := Some ''manual''\<rparr>))) 204
   \<and> \<not> m_validateStatus (buildFinalConfig
      (new_RequestBuilder ''POST''
         (empty_level\<lparr>validateStatus := Some (\<lambda>st. 200 \<le> st \<and> st < 300)\<rparr>)
         empty_level (empty_level\<lparr>redirect := Some ''manual''\<rparr>))) 404
   \<and> m_redirect (request_of (buildFinalConfig
      (snd (settings (ObjectArg (empty_level\<lparr>validateStatus := Some (\<lambda>st. st = 404)\<rparr>))
         (new_RequestBuilder ''POST''
            (empty_level\<lparr>validateStatus := Some (\<lambda>st. 200 \<le> st \<and> st < 300),
                          redirect := Some ''manual''\<rparr>)
            (empty_level\<lparr>validateStatus := Some (\<lambda>st. st = 500)\<rparr>) empty_level))))) = ''manual''
   \<and> m_validateStatus (buildFinalConfig
      (snd (settings (ObjectArg (empty_level\<lparr>validateStatus := Some (\<lambda>st. st = 404)\<rparr>))
         (new_RequestBuilder ''POST''
            (empty_level\<lparr>validateStatus := Some (\<lambda>st. 200 \<le> st \<and> st < 300),
                          redirect := Some ''manual''\<rparr>)
            (empty_level\<lparr>validateStatus := Some (\<lambda>st. st = 500)\<rparr>) empty_level)))) 302
   \<and> m_validateStatus (buildFinalConfig
      (snd (settings (ObjectArg (empty_level\<lparr>validateStatus := Some (\<lambda>st. st = 404)\<rparr>))
         (new_RequestBuilder ''POST''
            (empty_level\<lparr>validateStatus := Some (\<lambda>st. 200 \<le> st \<and> st < 300),
                          redirect := Some ''manual''\<rparr>)
            (empty_level\<lparr>validateStatus := Some (\<lambda>st. st = 500)\<rparr>) empty_level)))) 404
   \<and> \<not> m_validateStatus (buildFinalConfig
      (snd (settings (ObjectArg (empty_level\<lparr>validateStatus := Some (\<lambda>st. st = 404)\<rparr>))
         (new_RequestBuilder ''POST''
            (empty_level\<lparr>validateStatus := Some (\<lambda>st. 200 \<le> st \<and> st < 300),
                          redirect := Some ''manual''\<rparr>)
            (empty_level\<lparr>validateStatus := Some (\<lambda>st. st = 500)\<rparr>) empty_level)))) 200
   \<and> \<not> m_validateStatus (buildFinalConfig
      (snd (settings (ObjectArg (empty_level\<lparr>validateStatus := Some (\<lambda>st. st = 404)\<rparr>))
         (new_RequestBuilder ''POST''
            (empty_level\<lparr>validateStatus := Some (\<lambda>st. 200 \<le> st \<and> st < 300),
                          redirect := Some ''manual''\<rparr>)
            (empty_level\<lparr>validateStatus := Some (\<lambda>st. st = 500)\<rparr>) empty_level)))) 500"
  using manual_redirect_accepts_3xx
    [of "new_RequestBuilder ''POST''
           (empty_level\<lparr>validateStatus := Some (\<lambda>st. 200 \<le> st \<and> st < 300)\<rparr>)
           empty_level (empty_level\<lparr>redirect := Some ''manual''\<rparr>)"]
    manual_redirect_accepts_3xx
    [of "snd (settings (ObjectArg (empty_level\<lparr>validateStatus := Some (\<lambda>st. st = 404)\<rparr>))
         (new_RequestBuilder ''POST''
            (empty_level\<lparr>validateStatus := Some (\<lambda>st. 200 \<le> st \<and> st < 300),
                          redirect := Some ''manual''\<rparr>)
            (empty_level\<lparr>validateStatus := Some (\<lambda>st. st = 500)\<rparr>) empty_level))"]
  by (simp add: buildFinalConfig_def resolved_redirect_def new_RequestBuilder_def
      safeRequestSettings_def requestSettings_def empty_level_def str_or_def
      originalValidateStatus_def merged_key_def or_default_def settings_def is_nullish_def
      not_plain_object_def level_spread_def)

section \<open>Properties of the mapper pipeline\<close>

lemma collect_level_reset:
  "inheritMappers l = Some False \<Longrightarrow>
   collect_level fld acc (Some l, name) = map (\<lambda>f. (f, name)) (levelMappers (fld l))"
  by (simp add: collect_level_def)

text \<open>
  Claim C5. Wherever a level with \<open>inheritMappers: false\<close> stands among the four levels,
  what was collected from the levels before it is discarded: the pipeline is what the
  loop collects from that level's own mappers and the levels after it. With
  \<open>responseMapper: f\<close> at the client level and \<open>responseMapper: g, inheritMappers: false\<close>
  at the method level the pipeline is exactly \<open>g\<close>.
\<close>

theorem inheritance_break_is_a_reset:
  "(\<forall>before l name after.
       levels b = before @ (Some l, name) # after \<and> inheritMappers l = Some False \<longrightarrow>
       collectMappers fld b
         = foldl (collect_level fld) (map (\<lambda>f. (f, name)) (levelMappers (fld l))) after)
   \<and> collectMappers responseMapper
        (new_RequestBuilder hm (empty_level\<lparr>responseMapper := Single (Fn f)\<rparr>) empty_level
           (empty_level\<lparr>responseMapper := Single (Fn g), inheritMappers := Some False\<rparr>))
       = [(g, ''method'')]"
proof (intro conjI allI impI)
  fix before l name after
  assume "levels b = before @ (Some l, name) # after \<and> inheritMappers l = Some False"
  then show "collectMappers fld b
         = foldl (collect_level fld) (map (\<lambda>f. (f, name)) (levelMappers (fld l))) after"
    by (simp add: collectMappers_def collect_level_reset)
next
  show "collectMappers responseMapper
        (new_RequestBuilder hm (empty_level\<lparr>responseMapper := Single (Fn f)\<rparr>) empty_level
           (empty_level\<lparr>responseMapper := Single (Fn g), inheritMappers := Some False\<rparr>))
       = [(g, ''method'')]"
    by (simp add: collectMappers_def levels_def new_RequestBuilder_def collect_level_def
        requestSettings_def empty_level_def levelMappers_def)
qed

text \<open>
  An endpoint that breaks inheritance for error mappers: the client's mapper is dropped,
  the endpoint's own and the request's are kept, in that order.
\<close>

theorem inheritance_break_is_a_reset_witness:
  "levels (snd (settings
       (ObjectArg (empty_level\<lparr>errorMapper := Single (Fn (\<lambda>e. Returns None))\<rparr>))
       (new_RequestBuilder ''GET''
          (empty_level\<lparr>errorMapper := Single (Fn (\<lambda>e. Throws (VErr e)))\<rparr>)
          (empty_level\<lparr>errorMapper := Many [Fn (\<lambda>e. Returns (Some e)), NotAFunction],
                        inheritMappers := Some False\<rparr>)
          empty_level)))
     = [(Some (empty_level\<lparr>errorMapper := Single (Fn (\<lambda>e. Throws (VErr e)))\<rparr>), ''client'')]
       @ (Some (empty_level\<lparr>errorMapper := Many [Fn (\<lambda>e. Returns (Some e)), NotAFunction],
                              inheritMappers := Some False\<rparr>), ''endpoint'')
       # [(Some empty_level, ''method''),
          (Some (empty_level\<lparr>errorMapper := Single (Fn (\<lambda>e. Returns None))\<rparr>), ''request'')]
   \<and> collectMappers errorMapper (snd (settings
       (ObjectArg (empty_level\<lparr>errorMapper := Single (Fn (\<lambda>e. Returns None))\<rparr>))
       (new_RequestBuilder ''GET''
          (empty_level\<lparr>errorMapper := Single (Fn (\<lambda>e. Throws (VErr e)))\<rparr>)
          (empty_level\<lparr>errorMapper := Many [Fn (\<lambda>e. Returns (Some e)), NotAFunction],
                        inheritMappers := Some False\<rparr>)
          empty_level)))
     = [(\<lambda>e. Returns (Some e), ''endpoint''), (\<lambda>e. Returns None, ''request'')]"
  using inheritance_break_is_a_reset
    [of "snd (settings
       (ObjectArg (empty_level\<lparr>errorMapper := Single (Fn (\<lambda>e. Returns None))\<rparr>))
       (new_RequestBuilder ''GET''
          (empty_level\<lparr>errorMapper := Single (Fn (\<lambda>e. Throws (VErr e)))\<rparr>)
          (empty_level\<lparr>errorMapper := Many [Fn (\<lambda>e. Returns (Some e)), NotAFunction],
                        inheritMappers := Some False\<rparr>)
          empty_level))" errorMapper]
  by (simp add: levels_def settings_def is_nullish_def not_plain_object_def new_RequestBuilder_def
      requestSettings_def level_spread_def empty_level_def field_spread_def
      collectMappers_def collect_level_def levelMappers_def)

lemma response_stage_no_change:
  "m cur = Returns Undefined \<or> (\<exists>x. m cur = Throws x) \<Longrightarrow> response_stage cur (m, lvl) = cur"
  by (auto simp: response_stage_def)

lemma error_stage_no_change:
  "m cur = Returns None \<or> (\<exists>x. m cur = Throws x) \<Longrightarrow> error_stage cur (m, lvl) = cur"
  by (auto simp: error_stage_def)

text \<open>A fetch that succeeds ends in a resolved promise carrying the mapped data.\<close>

lemma success_resolves_with_mapped_data:
  assumes "executeFetch env cfg w = (Returns d, w1)"
  shows "executeRequestAndHandleCallbacks (Suc n) env cfg w
         = Some (Returns (applyResponseMappers d (builder w1)),
                 finally_block cfg
                   (call (m_onSuccess cfg) (OnSuccess (applyResponseMappers d (builder w1))) w1))"
  using assms by (simp add: Let_def)

text \<open>
  A fetch that fails, with no error interceptor configured, ends in a rejected promise
  carrying the mapped error, after \<open>onError\<close> was called with it.
\<close>

lemma failure_rejects_with_mapped_error:
  assumes "executeFetch env cfg w = (Throws x, w1)"
      and "m_errorInterceptor cfg = None"
  shows "executeRequestAndHandleCallbacks (Suc n) env cfg w
         = Some (Throws (VErr (applyErrorMappers (fromError x NETWORK) (builder w1))),
                 finally_block cfg
                   (call (m_onError cfg)
                      (OnError (applyErrorMappers (fromError x NETWORK) (builder w1))) w1))"
  using assms by (simp add: executeRequestAndHandleCallbacks.simps(2) reject_def Let_def)

text \<open>
  Claim C7. In either mapper pipeline, a stage that returns \<open>undefined\<close> or throws
  leaves the current value as it is, and the stages after it run on that value in order:
  the result is that of the pipeline without the stage. The outcome of the request is
  not changed by it. For response mappers: when the fetch returned data, the promise
  resolves with the result of the pipeline. For error mappers: when the fetch failed
  (and no error interceptor is configured), the promise rejects with the result of the
  pipeline.
\<close>

theorem mapper_fault_isolation:
  "(\<not> areMappersDisabled ResponseType b
    \<and> collectMappers responseMapper b = before @ [(m, lvl)] @ after
    \<and> (m (foldl response_stage d before) = Returns Undefined
       \<or> (\<exists>x. m (foldl response_stage d before) = Throws x))
    \<longrightarrow>
      applyResponseMappers d b = foldl response_stage (foldl response_stage d before) after
      \<and> (\<forall>n env cfg w w1.
            executeFetch env cfg w = (Returns d, w1) \<and> builder w1 = b \<longrightarrow>
            (\<exists>w'. executeRequestAndHandleCallbacks (Suc n) env cfg w
                    = Some (Returns (foldl response_stage (foldl response_stage d before) after),
                            w'))))
   \<and> (\<not> areMappersDisabled ErrorType b
      \<and> collectMappers errorMapper b = ebefore @ [(em, elvl)] @ eafter
      \<and> (em (foldl error_stage e ebefore) = Returns None
         \<or> (\<exists>x. em (foldl error_stage e ebefore) = Throws x))
      \<longrightarrow>
        applyErrorMappers e b = foldl error_stage (foldl error_stage e ebefore) eafter
        \<and> (\<forall>n env cfg w w1 x.
              executeFetch env cfg w = (Throws x, w1) \<and> builder w1 = b
              \<and> fromError x NETWORK = e \<and> m_errorInterceptor cfg = None \<longrightarrow>
              (\<exists>w'. executeRequestAndHandleCallbacks (Suc n) env cfg w
                      = Some (Throws (VErr (foldl error_stage (foldl error_stage e ebefore) eafter)),
                              w'))))"
proof (intro conjI impI)
  assume h: "\<not> areMappersDisabled ResponseType b
    \<and> collectMappers responseMapper b = before @ [(m, lvl)] @ after
    \<and> (m (foldl response_stage d before) = Returns Undefined
       \<or> (\<exists>x. m (foldl response_stage d before) = Throws x))"
  then have faulty: "m (foldl response_stage d before) = Returns Undefined
       \<or> (\<exists>x. m (foldl response_stage d before) = Throws x)"
    by simp
  show mapped: "applyResponseMappers d b
                  = foldl response_stage (foldl response_stage d before) after"
    using h response_stage_no_change [of m "foldl response_stage d before" lvl] faulty
    by (simp add: applyResponseMappers_def)
  show "\<forall>n env cfg w w1.
            executeFetch env cfg w = (Returns d, w1) \<and> builder w1 = b \<longrightarrow>
            (\<exists>w'. executeRequestAndHandleCallbacks (Suc n) env cfg w
                    = Some (Returns (foldl response_stage (foldl response_stage d before) after),
                            w'))"
  proof (intro allI impI)
    fix n and env :: "'c env" and cfg and w w1 :: "'c world"
    assume "executeFetch env cfg w = (Returns d, w1) \<and> builder w1 = b"
    then show "\<exists>w'. executeRequestAndHandleCallbacks (Suc n) env cfg w
                     = Some (Returns (foldl response_stage (foldl response_stage d before) after),
                             w')"
      using success_resolves_with_mapped_data [of env cfg w d w1 n] mapped by auto
  qed
next
  assume h: "\<not> areMappersDisabled ErrorType b
      \<and> collectMappers errorMapper b = ebefore @ [(em, elvl)] @ eafter
      \<and> (em (foldl error_stage e ebefore) = Returns None
         \<or> (\<exists>x. em (foldl error_stage e ebefore) = Throws x))"
  then have faulty: "em (foldl error_stage e ebefore) = Returns None
         \<or> (\<exists>x. em (foldl error_stage e ebefore) = Throws x)"
    by simp
  show mapped: "applyErrorMappers e b = foldl error_stage (foldl error_stage e ebefore) eafter"
    using h error_stage_no_change [of em "foldl error_stage e ebefore" elvl] faulty
    by (simp add: applyErrorMappers_def)
  show "\<forall>n env cfg w w1 x.
              executeFetch env cfg w = (Throws x, w1) \<and> builder w1 = b
              \<and> fromError x NETWORK = e \<and> m_errorInterceptor cfg = None \<longrightarrow>
              (\<exists>w'. executeRequestAndHandleCallbacks (Suc n) env cfg w
                      = Some (Throws (VErr (foldl error_stage (foldl error_stage e ebefore) eafter)),
                              w'))"
  proof (intro allI impI)
    fix n and env :: "'d env" and cfg and w w1 :: "'d world" and x
    assume "executeFetch env cfg w = (Throws x, w1) \<and> builder w1 = b
              \<and> fromError x NETWORK = e \<and> m_errorInterceptor cfg = None"
    then show "\<exists>w'. executeRequestAndHandleCallbacks (Suc n) env cfg w
                      = Some (Throws (VErr (foldl error_stage (foldl error_stage e ebefore) eafter)),
                              w')"
      using failure_rejects_with_mapped_error [of env cfg w x w1 n] mapped by auto
  qed
qed

text \<open>
  Two pipelines of three stages at the client level. Response mappers: the first wraps
  the data into an array, the second throws, the third wraps its input into an object;
  applied to 7 they give \<open>{ data: [7] }\<close>. Error mappers: the first appends \<open>!\<close> to the
  message, the second throws, the third appends \<open>?\<close>; applied to an HTTP 500 error they
  give the message \<open>HTTP error!?\<close>. In both, stages 1 and 3 ran, in this order.
\<close>

theorem mapper_fault_isolation_witness:
  "applyResponseMappers (Num 7)
     (new_RequestBuilder ''GET''
        (empty_level\<lparr>responseMapper :=
           Many [Fn (\<lambda>d. Returns (Arr [d])),
                 Fn (\<lambda>d. Throws (JsError ''Error'' ''stage 2 failed'')),
                 Fn (\<lambda>d. Returns (Obj [(''data'', d)]))],
          errorMapper :=
           Many [Fn (\<lambda>e. Returns (Some (VortexError (etype e) (message e @ ''!'') (status e)))),
                 Fn (\<lambda>e. Throws (JsError ''Error'' ''Error mapper failed'')),
                 Fn (\<lambda>e. Returns (Some (VortexError (etype e) (message e @ ''?'') (status e))))]\<rparr>)
        empty_level empty_level)
   = Obj [(''data'', Arr [Num 7])]
   \<and> applyErrorMappers (VortexError HTTP ''HTTP error'' (Some 500))
     (new_RequestBuilder ''GET''
        (empty_level\<lparr>responseMapper :=
           Many [Fn (\<lambda>d. Returns (Arr [d])),
                 Fn (\<lambda>d. Throws (JsError ''Error'' ''stage 2 failed'')),
                 Fn (\<lambda>d. Returns (Obj [(''data'', d)]))],
          errorMapper :=
           Many [Fn (\<lambda>e. Returns (Some (VortexError (etype e) (message e @ ''!'') (status e)))),
                 Fn (\<lambda>e. Throws (JsError ''Error'' ''Error mapper failed'')),
                 Fn (\<lambda>e. Returns (Some (VortexError (etype e) (message e @ ''?'') (status e))))]\<rparr>)
        empty_level empty_level)
   = VortexError HTTP ''HTTP error!?'' (Some 500)"
  using mapper_fault_isolation
    [of "new_RequestBuilder ''GET''
        (empty_level\<lparr>responseMapper :=
           Many [Fn (\<lambda>d. Returns (Arr [d])),
                 Fn (\<lambda>d. Throws (JsError ''Error'' ''stage 2 failed'')),
                 Fn (\<lambda>d. Returns (Obj [(''data'', d)]))],
          errorMapper :=
           Many [Fn (\<lambda>e. Returns (Some (VortexError (etype e) (message e @ ''!'') (status e)))),
                 Fn (\<lambda>e. Throws (JsError ''Error'' ''Error mapper failed'')),
                 Fn (\<lambda>e. Returns (Some (VortexError (etype e) (message e @ ''?'') (status e))))]\<rparr>)
        empty_level empty_level"
        "[(\<lambda>d. Returns (Arr [d]), ''client'')]"
        "\<lambda>d. Throws (JsError ''Error'' ''stage 2 failed'')" "''client''"
        "[(\<lambda>d. Returns (Obj [(''data'', d)]), ''client'')]"
        "Num 7"
        "[(\<lambda>e. Returns (Some (VortexError (etype e) (message e @ ''!'') (status e))), ''client'')]"
        "\<lambda>e. Throws (JsError ''Error'' ''Error mapper failed'')" "''client''"
        "[(\<lambda>e. Returns (Some (VortexError (etype e) (message e @ ''?'') (status e))), ''client'')]"
        "VortexError HTTP ''HTTP error'' (Some 500)"]
  by (simp add: areMappersDisabled_def level_disables_def new_RequestBuilder_def
      requestSettings_def empty_level_def collectMappers_def levels_def collect_level_def
      levelMappers_def response_stage_def applyResponseMappers_def error_stage_def
      applyErrorMappers_def)

section \<open>Properties of the builder's mutators\<close>

text \<open>
  Claim C10. \<open>pathParams\<close>, \<open>search\<close> and \<open>settings\<close> called with \<open>null\<close> or \<open>undefined\<close>
  return without throwing and leave the builder as it is. A VALIDATION error is thrown
  exactly for an argument that is not nullish and for which
  \<open>typeof a !== 'object' || Array.isArray(a)\<close> holds (a string, a number, a boolean, a
  function, an array); and whenever a mutator throws, the builder is as it was.
\<close>

theorem mutators_ignore_nullish:
  "(is_nullish a \<longrightarrow> pathParams a b = (Returns (), b) \<and> search a b = (Returns (), b))
   \<and> (is_nullish s \<longrightarrow> settings s b = (Returns (), b))
   \<and> ((\<exists>e. fst (pathParams a b) = Throws (VErr e) \<and> etype e = VALIDATION)
        \<longleftrightarrow> \<not> is_nullish a \<and> not_plain_object a)
   \<and> ((\<exists>e. fst (search a b) = Throws (VErr e) \<and> etype e = VALIDATION)
        \<longleftrightarrow> \<not> is_nullish a \<and> not_plain_object a)
   \<and> ((\<exists>e. fst (settings s b) = Throws (VErr e) \<and> etype e = VALIDATION)
        \<longleftrightarrow> \<not> is_nullish s \<and> not_plain_object s)
   \<and> (\<forall>x. fst (pathParams a b) = Throws x \<longrightarrow> snd (pathParams a b) = b)
   \<and> (\<forall>x. fst (search a b) = Throws x \<longrightarrow> snd (search a b) = b)
   \<and> (\<forall>x. fst (settings s b) = Throws x \<longrightarrow> snd (settings s b) = b)"
proof -
  have p: "(\<exists>e. fst (pathParams a b) = Throws (VErr e) \<and> etype e = VALIDATION)
        \<longleftrightarrow> \<not> is_nullish a \<and> not_plain_object a"
    by (cases a)
      (auto simp: pathParams_def is_nullish_def not_plain_object_def validation_error_def
         type_error_def split: option.splits)
  have q: "(\<exists>e. fst (search a b) = Throws (VErr e) \<and> etype e = VALIDATION)
        \<longleftrightarrow> \<not> is_nullish a \<and> not_plain_object a"
    by (cases a)
      (auto simp: search_def is_nullish_def not_plain_object_def validation_error_def
         type_error_def split: option.splits)
  have r: "(\<exists>e. fst (settings s b) = Throws (VErr e) \<and> etype e = VALIDATION)
        \<longleftrightarrow> \<not> is_nullish s \<and> not_plain_object s"
    by (cases s)
      (auto simp: settings_def is_nullish_def not_plain_object_def validation_error_def
         type_error_def split: option.splits)
  have p': "fst (pathParams a b) = Throws x \<Longrightarrow> snd (pathParams a b) = b" for x
    by (cases a) (auto simp: pathParams_def is_nullish_def not_plain_object_def split: option.splits)
  have q': "fst (search a b) = Throws x \<Longrightarrow> snd (search a b) = b" for x
    by (cases a) (auto simp: search_def is_nullish_def not_plain_object_def split: option.splits)
  have r': "fst (settings s b) = Throws x \<Longrightarrow> snd (settings s b) = b" for x
    by (cases s) (auto simp: settings_def is_nullish_def not_plain_object_def split: option.splits)
  show ?thesis
    using p q r p' q' r'
    by (simp add: pathParams_def search_def settings_def)
qed

text \<open>
  \<open>null\<close> and \<open>undefined\<close> leave a builder with accumulated state untouched; the string
  \<open>'id'\<close> and an array raise a VALIDATION error.
\<close>

theorem mutators_ignore_nullish_witness:
  "pathParams NullArg (snd (pathParams (ObjectArg [(''id'', Num 123)])
       (new_RequestBuilder ''GET'' empty_level empty_level empty_level)))
     = (Returns (), snd (pathParams (ObjectArg [(''id'', Num 123)])
       (new_RequestBuilder ''GET'' empty_level empty_level empty_level)))
   \<and> settings UndefinedArg (new_RequestBuilder ''GET'' empty_level empty_level empty_level)
     = (Returns (), new_RequestBuilder ''GET'' empty_level empty_level empty_level)
   \<and> pathParams (StringArg ''id'') (new_RequestBuilder ''GET'' empty_level empty_level empty_level)
     = (Throws (validation_error ''pathParams must be an object''),
        new_RequestBuilder ''GET'' empty_level empty_level empty_level)
   \<and> search (ArrayArg [Num 1]) (new_RequestBuilder ''GET'' empty_level empty_level empty_level)
     = (Throws (validation_error ''search params must be an object''),
        new_RequestBuilder ''GET'' empty_level empty_level empty_level)"
  using mutators_ignore_nullish
    [of NullArg "snd (pathParams (ObjectArg [(''id'', Num 123)])
       (new_RequestBuilder ''GET'' empty_level empty_level empty_level))" UndefinedArg]
  by (simp add: pathParams_def search_def settings_def is_nullish_def not_plain_object_def)

section \<open>Properties of request execution\<close>

lemma transports_append [simp]: "transports (xs @ ys) = transports xs @ transports ys"
  by (induction xs rule: transports.induct) simp_all

lemma builder_log [simp]: "builder (log ev w) = builder w"
  by (simp add: log_def)

lemma builder_call [simp]: "builder (call cb ev w) = builder w"
  by (simp add: call_def split: option.splits)

lemma events_call:
  "events (call cb ev w) = events w @ (case cb of None \<Rightarrow> [] | Some _ \<Rightarrow> [ev])"
  by (simp add: call_def log_def split: option.splits)

lemma events_finally_block:
  "events (finally_block cfg w)
     = events w @ (case m_onFinally cfg of None \<Rightarrow> [] | Some _ \<Rightarrow> [OnFinally])"
  by (simp add: finally_block_def Let_def events_call)

lemma builder_finally_block [simp]: "builder (finally_block cfg w) = cleanup (builder w)"
  by (simp add: finally_block_def Let_def)

lemma cleanup_idem [simp]: "cleanup (cleanup b) = cleanup b"
  by (simp add: cleanup_def)

text \<open>More fuel never changes a result.\<close>

lemma run_interceptor_mono:
  assumes "\<And>ov w r. retry ov w = Some r \<Longrightarrow> retry' ov w = Some r"
  shows "run_interceptor retry a w = Some r \<Longrightarrow> run_interceptor retry' a w = Some r"
proof (induction a arbitrary: w)
  case (Return v)
  then show ?case by simp
next
  case (Throw x)
  then show ?case by simp
next
  case (Retry ov k)
  from Retry.prems obtain rw where rw: "retry ov w = Some rw"
    and rest: "run_interceptor retry (k (fst rw)) (snd rw) = Some r"
    by (auto split: option.splits)
  from assms [OF rw] have "retry' ov w = Some rw" .
  moreover from Retry.IH rest have "run_interceptor retry' (k (fst rw)) (snd rw) = Some r"
    by blast
  ultimately show ?case by simp
qed

lemma createRetryFunction_mono:
  assumes "\<And>c w r. again c w = Some r \<Longrightarrow> again' c w = Some r"
  shows "createRetryFunction again cfg ov w = Some r \<Longrightarrow>
         createRetryFunction again' cfg ov w = Some r"
  using assms by (auto simp: createRetryFunction_def split: if_splits)

lemma fuel_Suc:
  "executeRequestAndHandleCallbacks n env cfg w = Some r \<Longrightarrow>
   executeRequestAndHandleCallbacks (Suc n) env cfg w = Some r"
proof (induction n arbitrary: cfg w r)
  case 0
  then show ?case by simp
next
  case (Suc n)
  have step: "\<And>ov w r.
      createRetryFunction (executeRequestAndHandleCallbacks n env) cfg ov w = Some r \<Longrightarrow>
      createRetryFunction (executeRequestAndHandleCallbacks (Suc n) env) cfg ov w = Some r"
    by (rule createRetryFunction_mono) (rule Suc.IH)
  have mono: "run_interceptor
                (createRetryFunction (executeRequestAndHandleCallbacks (Suc n) env) cfg) a w' = Some r'"
    if "run_interceptor
          (createRetryFunction (executeRequestAndHandleCallbacks n env) cfg) a w' = Some r'"
    for a w' r'
    using step that
    by (rule run_interceptor_mono
          [where retry = "createRetryFunction (executeRequestAndHandleCallbacks n env) cfg"])
  obtain res w1 where f: "executeFetch env cfg w = (res, w1)"
    by (cases "executeFetch env cfg w")
  show ?case
  proof (cases res)
    case (Returns d)
    with Suc.prems f show ?thesis by (simp add: Let_def)
  next
    case (Throws x)
    show ?thesis
    proof (cases "m_errorInterceptor cfg")
      case None
      with Suc.prems f Throws show ?thesis by simp
    next
      case (Some icpt)
      from Suc.prems f Throws Some obtain rw where
        run: "run_interceptor (createRetryFunction (executeRequestAndHandleCallbacks n env) cfg)
                (icpt (fromError x NETWORK) (request_of cfg)) w1 = Some rw"
        by (auto split: option.splits)
      from mono [OF run] have run':
        "run_interceptor (createRetryFunction (executeRequestAndHandleCallbacks (Suc n) env) cfg)
                (icpt (fromError x NETWORK) (request_of cfg)) w1 = Some rw" .
      from Suc.prems f Throws Some run run' show ?thesis
        by (simp del: executeRequestAndHandleCallbacks.simps(2)
                 add: executeRequestAndHandleCallbacks.simps(2) [of "Suc n"]
                      executeRequestAndHandleCallbacks.simps(2) [of n])
    qed
  qed
qed

lemma fuel_mono:
  assumes "executeRequestAndHandleCallbacks n env cfg w = Some r" and "n \<le> n'"
  shows "executeRequestAndHandleCallbacks n' env cfg w = Some r"
  using assms(2,1)
proof (induction rule: dec_induct)
  case base
  then show ?case .
next
  case (step k)
  then show ?case by (simp only: fuel_Suc)
qed

lemma exec_with_interceptor:
  assumes "executeFetch env cfg w = (Throws x, w1)"
      and "m_errorInterceptor cfg = Some icpt"
  shows "executeRequestAndHandleCallbacks (Suc n) env cfg w
         = map_option (after_interceptor cfg (fromError x NETWORK))
             (run_interceptor
                (createRetryFunction (executeRequestAndHandleCallbacks n env) cfg)
                (icpt (fromError x NETWORK) (request_of cfg)) w1)"
  using assms
  by (auto simp: after_interceptor_def split: option.splits outcome.splits)

lemma exec_without_interceptor:
  assumes "executeFetch env cfg w = (Throws x, w1)"
      and "m_errorInterceptor cfg = None"
  shows "executeRequestAndHandleCallbacks (Suc n) env cfg w
         = Some (apsnd (finally_block cfg) (reject cfg (fromError x NETWORK) w1))"
  using assms by simp

lemma run_final:
  "is_final a \<Longrightarrow> \<exists>res. run_interceptor retry a w = Some (res, w)"
  by (cases a) simp_all

lemma transports_reject:
  "transports (events (snd (reject cfg e w))) = transports (events w)"
  by (simp add: reject_def Let_def events_call split: option.splits)

lemma transports_finally_block:
  "transports (events (finally_block cfg w)) = transports (events w)"
  by (simp add: events_finally_block split: option.splits)

lemma transports_after_interceptor:
  "transports (events (snd (after_interceptor cfg e rw))) = transports (events (snd rw))"
  by (simp add: after_interceptor_def transports_finally_block transports_reject
      split: outcome.splits)

lemma spread_empty [simp]: "spread a [] = a"
  by (simp add: spread_def)

lemma retryConfig_attempt:
  assumes "retryCount (request_of cfg) = None" and "0 \<le> k"
  shows "retryConfig (attempt cfg k) no_overrides = attempt cfg (k + 1)"
  using assms
  by (simp add: retryConfig_def attempt_def no_overrides_def or_default_def num_or_def)

lemma attempt_fields:
  "m_errorInterceptor (attempt cfg k) = m_errorInterceptor cfg"
  "m_validateStatus (attempt cfg k) = m_validateStatus cfg"
  "m_onError (attempt cfg k) = m_onError cfg"
  "m_maxRetries (request_of (attempt cfg k)) = m_maxRetries (request_of cfg)"
  "m_cache_enabled (request_of (attempt cfg k)) = m_cache_enabled (request_of cfg)"
  "m_cache_strategy (request_of (attempt cfg k)) = m_cache_strategy (request_of cfg)"
  by (simp_all add: attempt_def)

lemma attempt_retryCount:
  "retryCount (request_of cfg) = None \<Longrightarrow> num_or (retryCount (request_of (attempt cfg k))) 0 = k"
  by (simp add: attempt_def num_or_def)

lemma simple_lookup_miss:
  assumes "m_cache_enabled (request_of cfg) \<and> m_cache_strategy (request_of cfg) = ''simple''
           \<longrightarrow> never_hits env"
  shows "\<exists>w1. simple_lookup env cfg w = (None, w1) \<and> events w1 = events w
              \<and> builder w1 = builder w"
proof (cases "m_cache_enabled (request_of cfg) \<and> m_cache_strategy (request_of cfg) = ''simple''")
  case False
  then show ?thesis by (auto simp: simple_lookup_def)
next
  case True
  with assms have nh: "never_hits env" by simp
  obtain res c' where g: "cache_get env (cacheInstance w) (generateCacheKey env (request_of cfg))
                            = (res, c')"
    by (cases "cache_get env (cacheInstance w) (generateCacheKey env (request_of cfg))")
  show ?thesis
  proof (cases res)
    case (Returns v)
    from g Returns have "fst (cache_get env (cacheInstance w)
                            (generateCacheKey env (request_of cfg))) = Returns v" by simp
    with nh have "v = Null" unfolding never_hits_def by blast
    with True g Returns show ?thesis by (simp add: simple_lookup_def)
  next
    case (Throws x)
    with True g show ?thesis by (simp add: simple_lookup_def)
  qed
qed

lemma executeFetch_failing:
  assumes miss: "m_cache_enabled (request_of cfg) \<and> m_cache_strategy (request_of cfg) = ''simple''
           \<longrightarrow> never_hits env"
      and fails: "\<forall>i q. failing (m_validateStatus cfg) (transport env i q)"
  shows "\<exists>e w1. executeFetch env cfg w = (Throws (VErr e), w1)
           \<and> events w1 = events w @ [Transport (num_or (retryCount (request_of cfg)) 0)]
           \<and> builder w1 = builder w"
proof -
  from simple_lookup_miss [OF miss] obtain w0 where
    l: "simple_lookup env cfg w = (None, w0)" and ev: "events w0 = events w"
    and bd: "builder w0 = builder w" by blast
  from fails have f: "failing (m_validateStatus cfg)
      (transport env (length (transports (events w0))) (request_of cfg))" by blast
  show ?thesis
  proof (cases "transport env (length (transports (events w0))) (request_of cfg)")
    case (NotSent e)
    with f show ?thesis by (simp add: failing_def)
  next
    case (Failed e)
    with l ev bd show ?thesis by (simp add: executeFetch_def log_def)
  next
    case (Response st bd')
    with f l ev bd show ?thesis
      by (cases bd') (auto simp: executeFetch_def log_def failing_def Let_def http_error_def
          parse_error_def)
  qed
qed

declare executeRequestAndHandleCallbacks.simps(2) [simp del]

lemma counters_from:
  "k # map (\<lambda>i. k + 1 + int i) [0..<n] = map (\<lambda>i. k + int i) [0..<Suc n]"
proof -
  have "[0..<Suc n] = 0 # map Suc [0..<n]"
    by (simp add: upt_conv_Cons map_Suc_upt del: upt_Suc)
  then show ?thesis by (simp add: comp_def del: upt_Suc)
qed

lemma createRetryFunction_exhausted:
  assumes "m_maxRetries (request_of cfg) \<noteq> 0"
      and "num_or (retryCount (request_of cfg)) 0 \<ge> m_maxRetries (request_of cfg)"
  shows "createRetryFunction again cfg ov w = Some (Returns Undefined, w)"
  using assms by (simp add: createRetryFunction_def num_or_def)

lemma createRetryFunction_budget_left:
  assumes "m_maxRetries (request_of cfg) \<noteq> 0"
      and "num_or (retryCount (request_of cfg)) 0 < m_maxRetries (request_of cfg)"
  shows "createRetryFunction again cfg ov w = again (retryConfig cfg ov) w"
  using assms by (simp add: createRetryFunction_def num_or_def)

lemma always_retry_chain:
  fixes N :: int
  assumes fresh: "retryCount (request_of cfg) = None"
      and N: "m_maxRetries (request_of cfg) = N" "0 < N"
      and icpt: "m_errorInterceptor cfg = Some (\<lambda>err q. Retry no_overrides (kk err q))"
      and final: "\<forall>err q r. is_final (kk err q r)"
      and fails: "\<forall>i q. failing (m_validateStatus cfg) (transport env i q)"
      and miss: "m_cache_enabled (request_of cfg) \<and> m_cache_strategy (request_of cfg) = ''simple''
                 \<longrightarrow> never_hits env"
  shows "0 \<le> k \<Longrightarrow> k \<le> N \<Longrightarrow> nat (N - k) = j \<Longrightarrow>
     \<exists>r w'. executeRequestAndHandleCallbacks (Suc j) env (attempt cfg k) w = Some (r, w')
        \<and> transports (events w') = transports (events w) @ map (\<lambda>i. k + int i) [0..<Suc j]"
proof (induction j arbitrary: k w)
  case 0
  then have kN: "k = N" by simp
  from executeFetch_failing [of "attempt cfg k" env w] miss fails
  obtain e w1 where f: "executeFetch env (attempt cfg k) w = (Throws (VErr e), w1)"
    and ev: "events w1 = events w @ [Transport k]"
    by (auto simp: attempt_fields attempt_retryCount [OF fresh])
  have retry: "createRetryFunction (executeRequestAndHandleCallbacks 0 env) (attempt cfg k)
                 no_overrides w1 = Some (Returns Undefined, w1)"
    using N kN by (intro createRetryFunction_exhausted)
      (simp_all add: attempt_fields attempt_retryCount [OF fresh])
  from final have "is_final (kk e (request_of (attempt cfg k)) (Returns Undefined))" by simp
  from run_final [OF this] obtain res where
    run: "run_interceptor
            (createRetryFunction (executeRequestAndHandleCallbacks 0 env) (attempt cfg k))
            (kk e (request_of (attempt cfg k)) (Returns Undefined)) w1 = Some (res, w1)"
    by metis
  have "executeRequestAndHandleCallbacks (Suc 0) env (attempt cfg k) w
          = Some (after_interceptor (attempt cfg k) e (res, w1))"
    using exec_with_interceptor [OF f, of "\<lambda>err q. Retry no_overrides (kk err q)" 0]
      icpt retry run
    by (simp add: attempt_fields)
  moreover have "transports (events (snd (after_interceptor (attempt cfg k) e (res, w1))))
          = transports (events w) @ [k]"
    by (simp add: transports_after_interceptor ev)
  ultimately show ?case
    by (cases "after_interceptor (attempt cfg k) e (res, w1)") simp
next
  case (Suc j)
  then have k1: "0 \<le> k + 1" "k + 1 \<le> N" "nat (N - (k + 1)) = j" and kN: "k < N" by simp_all
  from executeFetch_failing [of "attempt cfg k" env w] miss fails
  obtain e w1 where f: "executeFetch env (attempt cfg k) w = (Throws (VErr e), w1)"
    and ev: "events w1 = events w @ [Transport k]"
    by (auto simp: attempt_fields attempt_retryCount [OF fresh])
  from Suc.IH [OF k1, of w1] obtain r w2 where
    inner: "executeRequestAndHandleCallbacks (Suc j) env (attempt cfg (k + 1)) w1 = Some (r, w2)"
    and ev2: "transports (events w2)
                = transports (events w1) @ map (\<lambda>i. k + 1 + int i) [0..<Suc j]"
    by blast
  have retry: "createRetryFunction (executeRequestAndHandleCallbacks (Suc j) env) (attempt cfg k)
                 no_overrides w1 = Some (r, w2)"
    using N kN inner retryConfig_attempt [OF fresh Suc.prems(1)]
      createRetryFunction_budget_left
        [of "attempt cfg k" "executeRequestAndHandleCallbacks (Suc j) env" no_overrides w1]
    by (simp add: attempt_fields attempt_retryCount [OF fresh])
  from final have "is_final (kk e (request_of (attempt cfg k)) r)" by simp
  from run_final [OF this] obtain res where
    run: "run_interceptor
            (createRetryFunction (executeRequestAndHandleCallbacks (Suc j) env) (attempt cfg k))
            (kk e (request_of (attempt cfg k)) r) w2 = Some (res, w2)"
    by metis
  have "executeRequestAndHandleCallbacks (Suc (Suc j)) env (attempt cfg k) w
          = Some (after_interceptor (attempt cfg k) e (res, w2))"
    using exec_with_interceptor [OF f, of "\<lambda>err q. Retry no_overrides (kk err q)" "Suc j"]
      icpt retry run
    by (simp add: attempt_fields)
  moreover have "transports (events (snd (after_interceptor (attempt cfg k) e (res, w2))))
          = transports (events w) @ map (\<lambda>i. k + int i) [0..<Suc (Suc j)]"
    using ev ev2 counters_from [of k "Suc j"]
    by (simp add: transports_after_interceptor del: upt_Suc)
  ultimately show ?case
    by (cases "after_interceptor (attempt cfg k) e (res, w2)") (simp del: upt_Suc)
qed

text \<open>
  The retry budget of a first attempt (\<open>_retryCount\<close> undefined) whose \<open>maxRetries\<close>
  is a positive number.
\<close>

lemma retry_budget_of_first_attempt:
  fixes N :: int
  assumes "retryCount (request_of cfg) = None"
      and "m_maxRetries (request_of cfg) = N"
      and "0 < N"
      and "m_errorInterceptor cfg = Some (\<lambda>err q. Retry no_overrides (kk err q))"
      and "\<forall>err q r. is_final (kk err q r)"
      and "\<forall>i q. failing (m_validateStatus cfg) (transport env i q)"
      and "m_cache_enabled (request_of cfg) \<and> m_cache_strategy (request_of cfg) = ''simple''
           \<longrightarrow> never_hits env"
      and "nat N < fuel"
  shows "(\<exists>r w'. executeRequestAndHandleCallbacks fuel env cfg w = Some (r, w')
            \<and> transports (events w') = transports (events w) @ map int [0..<nat N + 1]
            \<and> length (transports (events w')) = length (transports (events w)) + nat N + 1)
       \<and> createRetryFunction again (attempt cfg N) ov w = Some (Returns Undefined, w)"
proof
  from always_retry_chain [OF assms(1-7), of 0 "nat N" w] assms(3)
  obtain r w' where
    run: "executeRequestAndHandleCallbacks (Suc (nat N)) env cfg w = Some (r, w')"
    and ev: "transports (events w') = transports (events w) @ map int [0..<Suc (nat N)]"
    by (auto simp: attempt_def)
  from assms(8) have "Suc (nat N) \<le> fuel" by simp
  from fuel_mono [OF run this] ev
  show "\<exists>r w'. executeRequestAndHandleCallbacks fuel env cfg w = Some (r, w')
            \<and> transports (events w') = transports (events w) @ map int [0..<nat N + 1]
            \<and> length (transports (events w')) = length (transports (events w)) + nat N + 1"
    by (simp del: upt_Suc)
next
  show "createRetryFunction again (attempt cfg N) ov w = Some (Returns Undefined, w)"
    using assms(1-3)
    by (intro createRetryFunction_exhausted)
      (simp_all add: attempt_fields attempt_retryCount)
qed

text \<open>
  Claim C3. Take the configuration \<open>_buildFinalConfig\<close> resolves for a builder, with a
  resolved \<open>maxRetries\<close> of \<open>N\<close> that is not negative (it is never 0), an error interceptor
  that awaits \<open>retry()\<close> once on every call and then returns or throws, and a transport
  whose every call makes the attempt fail (no hit in the cache under the simple
  strategy). With enough fuel the request settles, and the transport was called exactly
  \<open>N + 1\<close> times, by attempts whose retry counts are \<open>0, 1, ..., N\<close>. The \<open>retry\<close>
  function of the attempt with retry count \<open>N\<close> returns \<open>undefined\<close> without running
  anything.
\<close>

theorem retry_budget:
  fixes N :: int
  assumes "cfg = buildFinalConfig b"
      and "m_maxRetries (request_of cfg) = N"
      and "0 \<le> N"
      and "m_errorInterceptor cfg = Some (\<lambda>err q. Retry no_overrides (kk err q))"
      and "\<forall>err q r. is_final (kk err q r)"
      and "\<forall>i q. failing (m_validateStatus cfg) (transport env i q)"
      and "m_cache_enabled (request_of cfg) \<and> m_cache_strategy (request_of cfg) = ''simple''
           \<longrightarrow> never_hits env"
      and "nat N < fuel"
  shows "(\<exists>r w'. executeRequestAndHandleCallbacks fuel env cfg w = Some (r, w')
            \<and> transports (events w') = transports (events w) @ map int [0..<nat N + 1]
            \<and> length (transports (events w')) = length (transports (events w)) + nat N + 1)
       \<and> createRetryFunction again (attempt cfg N) ov w = Some (Returns Undefined, w)"
proof -
  have fresh: "retryCount (request_of cfg) = None"
    using assms(1) by (simp add: buildFinalConfig_def)
  have "m_maxRetries (request_of cfg) = resolved_maxRetries b"
    using assms(1) by (simp add: buildFinalConfig_def)
  with assms(2,3) resolved_maxRetries_nonzero [of b] have positive: "0 < N"
    by simp
  show ?thesis
    by (rule retry_budget_of_first_attempt [OF fresh assms(2) positive assms(4-8)])
qed

text \<open>
  The test "should respect maxRetries limit in interceptors" of the repository, with an
  interceptor that always retries: \<open>maxRetries: 2\<close> at the client level, a server that
  always answers 500, three calls of the transport.
\<close>

theorem retry_budget_witness:
  "\<exists>r w'. executeRequestAndHandleCallbacks 3
       \<lparr> transport = (\<lambda>i q. Response 500 (Parsed (Str ''Server Error''))),
         cache_get = (\<lambda>c k. (Returns Null, c)),
         cache_set = (\<lambda>c k v t. (Returns (), c)),
         generateCacheKey = (\<lambda>q. m_httpMethod q) \<rparr>
       (buildFinalConfig (new_RequestBuilder ''GET''
          (empty_level\<lparr>maxRetries := Some 2,
             errorInterceptor := Some (\<lambda>err q. Retry no_overrides
                (\<lambda>r. case r of Returns v \<Rightarrow> Return v | Throws x \<Rightarrow> Throw x))\<rparr>)
          empty_level empty_level))
       \<lparr> builder = new_RequestBuilder ''GET''
          (empty_level\<lparr>maxRetries := Some 2,
             errorInterceptor := Some (\<lambda>err q. Retry no_overrides
                (\<lambda>r. case r of Returns v \<Rightarrow> Return v | Throws x \<Rightarrow> Throw x))\<rparr>)
          empty_level empty_level,
         events = [], cacheInstance = (), inflightRequests = [] \<rparr> = Some (r, w')
     \<and> transports (events w') = [0, 1, 2]"
proof -
  let ?kk = "\<lambda>(err :: VortexError) (q :: request) r.
               case r of Returns v \<Rightarrow> Return v | Throws x \<Rightarrow> Throw x"
  let ?b = "new_RequestBuilder ''GET''
          (empty_level\<lparr>maxRetries := Some 2,
             errorInterceptor := Some (\<lambda>err q. Retry no_overrides
                (\<lambda>r. case r of Returns v \<Rightarrow> Return v | Throws x \<Rightarrow> Throw x))\<rparr>)
          empty_level empty_level"
  let ?env = "\<lparr> transport = (\<lambda>i q. Response 500 (Parsed (Str ''Server Error''))),
         cache_get = (\<lambda>c k. (Returns Null, c)),
         cache_set = (\<lambda>c k v t. (Returns (), c)),
         generateCacheKey = (\<lambda>q. m_httpMethod q) \<rparr> :: unit env"
  have fresh: "retryCount (request_of (buildFinalConfig ?b)) = None"
    by (simp add: buildFinalConfig_def)
  have budget: "m_maxRetries (request_of (buildFinalConfig ?b)) = 2"
    by (simp add: buildFinalConfig_def resolved_maxRetries_def new_RequestBuilder_def
        safeRequestSettings_def requestSettings_def empty_level_def num_or_def)
  have icpt: "m_errorInterceptor (buildFinalConfig ?b)
                = Some (\<lambda>err q. Retry no_overrides (?kk err q))"
    by (simp add: buildFinalConfig_def merged_key_def new_RequestBuilder_def
        safeRequestSettings_def requestSettings_def empty_level_def)
  have final: "\<forall>err q r. is_final (?kk err q r)"
    by (simp split: outcome.splits)
  have valid: "m_validateStatus (buildFinalConfig ?b) = default_validateStatus"
    by (simp add: buildFinalConfig_def resolved_redirect_def originalValidateStatus_def
        merged_key_def new_RequestBuilder_def safeRequestSettings_def requestSettings_def
        empty_level_def str_or_def or_default_def)
  have fails: "\<forall>i q. failing (m_validateStatus (buildFinalConfig ?b)) (transport ?env i q)"
    by (simp add: valid failing_def default_validateStatus_def)
  have miss: "m_cache_enabled (request_of (buildFinalConfig ?b))
                \<and> m_cache_strategy (request_of (buildFinalConfig ?b)) = ''simple''
              \<longrightarrow> never_hits ?env"
    by (simp add: never_hits_def)
  have counters: "map int [0..<nat 2 + 1] = [0, 1, 2]"
    by (simp add: upt_rec)
  from retry_budget [OF refl budget _ icpt final fails miss, of 3]
  show ?thesis
    by (simp only: counters) force
qed


lemma executeFetch_throws_VortexError:
  "executeFetch env cfg w = (Throws x, w1) \<Longrightarrow> \<exists>e. x = VErr e"
  by (auto simp: executeFetch_def Let_def http_error_def parse_error_def
      split: prod.splits option.splits transport_result.splits if_splits parsed.splits)

lemma builder_simple_lookup: "builder (snd (simple_lookup env cfg w)) = builder w"
  by (simp add: simple_lookup_def split: prod.splits outcome.splits)

lemma builder_store [simp]: "builder (store env cfg d w) = builder w"
  by (simp add: store_def)

lemma builder_executeFetch: "builder (snd (executeFetch env cfg w)) = builder w"
proof -
  obtain h w0 where l: "simple_lookup env cfg w = (h, w0)"
    by (cases "simple_lookup env cfg w")
  with builder_simple_lookup [of env cfg w] have "builder w0 = builder w" by simp
  with l show ?thesis
    by (auto simp: executeFetch_def Let_def
        split: option.splits transport_result.splits parsed.splits)
qed

lemma finally_block_cleaned:
  "(finally_block cfg w)\<lparr>builder := cleanup (builder (finally_block cfg w))\<rparr> = finally_block cfg w"
  by (simp add: finally_block_def Let_def)

lemma send_without_swr:
  assumes "\<not> (m_cache_enabled (request_of (buildFinalConfig (builder w)))
              \<and> m_cache_strategy (request_of (buildFinalConfig (builder w))) = ''swr'')"
  shows "send n env w =
     (case executeRequestAndHandleCallbacks n env (buildFinalConfig (builder w))
             (call (m_onStart (buildFinalConfig (builder w))) OnStart w) of
        None \<Rightarrow> None
      | Some (Returns v, w2) \<Rightarrow> Some (Returns v, w2)
      | Some (Throws x, w2) \<Rightarrow> Some (Throws x, w2\<lparr>builder := cleanup (builder w2)\<rparr>))"
  using assms by (auto simp: send_def Let_def)

lemma builder_reject [simp]: "builder (snd (reject cfg e w)) = builder w"
  by (simp add: reject_def Let_def)

lemma builder_after_interceptor:
  "builder (snd (after_interceptor cfg e rw)) = cleanup (builder (snd rw))"
  by (simp add: after_interceptor_def split: outcome.splits)

lemma builder_run_interceptor:
  assumes "\<And>ov w rw. retry ov w = Some rw \<Longrightarrow>
             builder (snd rw) = builder w \<or> builder (snd rw) = cleanup (builder w)"
  shows "run_interceptor retry a w = Some r \<Longrightarrow>
         builder (snd r) = builder w \<or> builder (snd r) = cleanup (builder w)"
proof (induction a arbitrary: w)
  case (Return v)
  then show ?case by auto
next
  case (Throw x)
  then show ?case by auto
next
  case (Retry ov k)
  from Retry.prems obtain rw where rw: "retry ov w = Some rw"
    and rest: "run_interceptor retry (k (fst rw)) (snd rw) = Some r"
    by (auto split: option.splits)
  from assms [OF rw]
  have first: "builder (snd rw) = builder w \<or> builder (snd rw) = cleanup (builder w)" .
  from Retry.IH rest
  have "builder (snd r) = builder (snd rw) \<or> builder (snd r) = cleanup (builder (snd rw))"
    by blast
  with first show ?case by auto
qed

text \<open>
  Every attempt that runs to its end leaves the builder cleaned up, whether it resolves
  or rejects: its \<open>finally\<close> block calls \<open>_cleanup()\<close> on the builder all attempts share.
\<close>

lemma exec_cleans:
  "executeRequestAndHandleCallbacks n env cfg w = Some r \<Longrightarrow>
   builder (snd r) = cleanup (builder w)"
proof (induction n arbitrary: cfg w r)
  case 0
  then show ?case by simp
next
  case (Suc n)
  have retry_b: "builder (snd rw) = builder w' \<or> builder (snd rw) = cleanup (builder w')"
    if "createRetryFunction (executeRequestAndHandleCallbacks n env) cfg ov w' = Some rw"
    for ov w' rw
    using that Suc.IH by (auto simp: createRetryFunction_def split: if_splits)
  obtain res w1 where f: "executeFetch env cfg w = (res, w1)"
    by (cases "executeFetch env cfg w")
  with builder_executeFetch [of env cfg w] have b1: "builder w1 = builder w" by simp
  show ?case
  proof (cases res)
    case (Returns d)
    with Suc.prems f b1 show ?thesis
      by (auto simp: executeRequestAndHandleCallbacks.simps(2) Let_def)
  next
    case (Throws x)
    show ?thesis
    proof (cases "m_errorInterceptor cfg")
      case None
      with Suc.prems f Throws b1 show ?thesis
        by (auto simp: exec_without_interceptor)
    next
      case (Some icpt)
      from Suc.prems f Throws Some obtain rw where
        run: "run_interceptor (createRetryFunction (executeRequestAndHandleCallbacks n env) cfg)
                (icpt (fromError x NETWORK) (request_of cfg)) w1 = Some rw"
        and r: "r = after_interceptor cfg (fromError x NETWORK) rw"
        by (auto simp: exec_with_interceptor)
      from builder_run_interceptor
             [where retry = "createRetryFunction (executeRequestAndHandleCallbacks n env) cfg",
              OF retry_b run]
      have "builder (snd rw) = builder w1 \<or> builder (snd rw) = cleanup (builder w1)" .
      with r b1 show ?thesis
        by (auto simp: builder_after_interceptor)
    qed
  qed
qed

text \<open>A builder that was cleaned up has no mapper at any level.\<close>

lemma applyErrorMappers_cleanup: "applyErrorMappers e (cleanup b) = e"
  by (simp add: applyErrorMappers_def collectMappers_def levels_def collect_level_def
      requestSettings_def cleanup_def)

lemma applyResponseMappers_cleanup: "applyResponseMappers d (cleanup b) = d"
  by (simp add: applyResponseMappers_def collectMappers_def levels_def collect_level_def
      requestSettings_def cleanup_def)

text \<open>
  An interceptor that awaits \<open>retry()\<close> while there is budget left settles on a builder
  that was cleaned up.
\<close>

lemma builder_after_retry:
  assumes budget: "num_or (retryCount (request_of cfg)) 0
                     < num_or (Some (m_maxRetries (request_of cfg))) 10"
      and run: "run_interceptor
                  (createRetryFunction (executeRequestAndHandleCallbacks n env) cfg)
                  (Retry ov k) w1 = Some (res, w2)"
  shows "builder w2 = cleanup (builder w1)"
proof -
  let ?retry = "createRetryFunction (executeRequestAndHandleCallbacks n env) cfg"
  have retry_b: "builder (snd rw) = builder w' \<or> builder (snd rw) = cleanup (builder w')"
    if h: "?retry ov' w' = Some rw" for ov' w' rw
  proof (cases "num_or (Some (m_maxRetries (request_of cfg))) 10
                  \<le> num_or (retryCount (request_of cfg)) 0")
    case True
    with h show ?thesis by (auto simp: createRetryFunction_def)
  next
    case False
    with h have "executeRequestAndHandleCallbacks n env (retryConfig cfg ov') w' = Some rw"
      by (simp add: createRetryFunction_def)
    from exec_cleans [OF this] show ?thesis by simp
  qed
  from run obtain rw where rw: "?retry ov w1 = Some rw"
    and rest: "run_interceptor ?retry (k (fst rw)) (snd rw) = Some (res, w2)"
    by (auto split: option.splits)
  from rw budget have "executeRequestAndHandleCallbacks n env (retryConfig cfg ov) w1 = Some rw"
    by (simp add: createRetryFunction_def)
  from exec_cleans [OF this] have first: "builder (snd rw) = cleanup (builder w1)" .
  from builder_run_interceptor [where retry = ?retry, OF retry_b rest]
  have "builder w2 = builder (snd rw) \<or> builder w2 = cleanup (builder (snd rw))"
    by simp
  with first show ?thesis by auto
qed

text \<open>
  What \<open>send()\<close> does, off the stale-while-revalidate path, once the error interceptor of
  the failed first attempt has settled: a defined value is what \<open>send()\<close> resolves with;
  otherwise the error goes through the error mappers the builder has at that moment, to
  \<open>onError\<close>, and is what \<open>send()\<close> rejects with.
\<close>

lemma send_after_interceptor:
  assumes cfg: "cfg = buildFinalConfig (builder w)"
      and not_swr: "\<not> (m_cache_enabled (request_of cfg)
                       \<and> m_cache_strategy (request_of cfg) = ''swr'')"
      and fetch: "executeFetch env cfg (call (m_onStart cfg) OnStart w) = (Throws x, w1)"
      and icpt: "m_errorInterceptor cfg = Some interceptor"
      and run: "run_interceptor
                  (createRetryFunction (executeRequestAndHandleCallbacks n env) cfg)
                  (interceptor (fromError x NETWORK) (request_of cfg)) w1 = Some (res, w2)"
  shows "(\<forall>v. res = Returns v \<and> v \<noteq> Undefined \<longrightarrow>
            send (Suc n) env w = Some (Returns v, finally_block cfg w2))
       \<and> (res = Returns Undefined \<longrightarrow>
            send (Suc n) env w
              = Some (Throws (VErr (applyErrorMappers (fromError x NETWORK) (builder w2))),
                      finally_block cfg
                        (call (m_onError cfg)
                           (OnError (applyErrorMappers (fromError x NETWORK) (builder w2))) w2)))
       \<and> (\<forall>y. res = Throws y \<longrightarrow>
            send (Suc n) env w
              = Some (Throws (VErr (applyErrorMappers (interceptedError y) (builder w2))),
                      finally_block cfg
                        (call (m_onError cfg)
                           (OnError (applyErrorMappers (interceptedError y) (builder w2))) w2)))"
proof -
  have ex: "executeRequestAndHandleCallbacks (Suc n) env cfg (call (m_onStart cfg) OnStart w)
          = Some (after_interceptor cfg (fromError x NETWORK) (res, w2))"
    using exec_with_interceptor [OF fetch icpt, of n] run by simp
  have s: "send (Suc n) env w =
     (case after_interceptor cfg (fromError x NETWORK) (res, w2) of
        (Returns v, w3) \<Rightarrow> Some (Returns v, w3)
      | (Throws y, w3) \<Rightarrow> Some (Throws y, w3\<lparr>builder := cleanup (builder w3)\<rparr>))"
    using send_without_swr [of w "Suc n" env] not_swr ex cfg by simp
  show ?thesis
    by (auto simp: s after_interceptor_def reject_def Let_def finally_block_cleaned)
qed

text \<open>
  So whenever the interceptor of the first attempt awaits \<open>retry()\<close> with budget left and
  then throws or returns \<open>undefined\<close>, the error \<open>send()\<close> rejects with is the unmapped
  one, whatever error mappers the levels configure; \<open>onError\<close> is still called, with the
  unmapped error.
\<close>

lemma rejection_after_retry_is_unmapped:
  assumes cfg: "cfg = buildFinalConfig (builder w)"
      and not_swr: "\<not> (m_cache_enabled (request_of cfg)
                       \<and> m_cache_strategy (request_of cfg) = ''swr'')"
      and fetch: "executeFetch env cfg (call (m_onStart cfg) OnStart w) = (Throws x, w1)"
      and icpt: "m_errorInterceptor cfg = Some interceptor"
      and retries: "interceptor (fromError x NETWORK) (request_of cfg) = Retry ov k"
      and budget: "0 < m_maxRetries (request_of cfg)"
      and run: "run_interceptor
                  (createRetryFunction (executeRequestAndHandleCallbacks n env) cfg)
                  (Retry ov k) w1 = Some (res, w2)"
  shows "(res = Returns Undefined \<longrightarrow>
            send (Suc n) env w
              = Some (Throws (VErr (fromError x NETWORK)),
                      finally_block cfg
                        (call (m_onError cfg) (OnError (fromError x NETWORK)) w2)))
       \<and> (\<forall>y. res = Throws y \<longrightarrow>
            send (Suc n) env w
              = Some (Throws (VErr (interceptedError y)),
                      finally_block cfg
                        (call (m_onError cfg) (OnError (interceptedError y)) w2)))"
proof -
  from cfg have "retryCount (request_of cfg) = None"
    by (simp add: buildFinalConfig_def)
  with budget have "num_or (retryCount (request_of cfg)) 0
                     < num_or (Some (m_maxRetries (request_of cfg))) 10"
    by (simp add: num_or_def)
  from builder_after_retry [OF this run] have "builder w2 = cleanup (builder w1)" .
  then have unmapped: "applyErrorMappers e (builder w2) = e" for e
    by (simp add: applyErrorMappers_cleanup)
  from run retries have run': "run_interceptor
                  (createRetryFunction (executeRequestAndHandleCallbacks n env) cfg)
                  (interceptor (fromError x NETWORK) (request_of cfg)) w1 = Some (res, w2)"
    by simp
  from send_after_interceptor [OF cfg not_swr fetch icpt run'] show ?thesis
    by (simp add: unmapped)
qed

text \<open>
  Claim C8 at a concrete request: no caching, \<open>maxRetries: 1\<close>, a server that answers 500,
  a client-level error mapper that rewrites the message to \<open>mapped\<close>, an \<open>onError\<close>
  callback, and an error interceptor that awaits \<open>retry()\<close> inside \<open>try\<close>/\<open>catch\<close> and then
  throws the error it was given. The retry runs to its end (its own error is mapped and
  reported to \<open>onError\<close>) and cleans up the builder; the error of the first attempt then
  finds no mapper: \<open>onError\<close> is called with the unmapped error and \<open>send()\<close> rejects with
  it. It is the same when the interceptor returns \<open>undefined\<close> after the retry. When the
  interceptor throws without a retry, and when there is no interceptor, \<open>send()\<close> rejects
  with the mapped error.
\<close>

theorem rejection_after_retry_skips_error_mappers:
  "map_option (\<lambda>rw. (fst rw, events (snd rw)))
     (send 3 (SimpleCache_env 0 always_500 users_key)
        (new_world
           (empty_level\<lparr>maxRetries := Some 1,
              errorInterceptor := Some (\<lambda>err q. Retry no_overrides (\<lambda>r. Throw (VErr err))),
              errorMapper :=
                Single (Fn (\<lambda>e. Returns (Some (VortexError (etype e) ''mapped'' (status e))))),
              onError := Some Quiet\<rparr>)
           (new_SimpleCache 1000 False)))
     = Some (Throws (VErr (VortexError HTTP ''HTTP error'' (Some 500))),
           [Transport 0, Transport 1, OnError (VortexError HTTP ''mapped'' (Some 500)),
            OnError (VortexError HTTP ''HTTP error'' (Some 500))])
   \<and> map_option (\<lambda>rw. (fst rw, events (snd rw)))
     (send 3 (SimpleCache_env 0 always_500 users_key)
        (new_world
           (empty_level\<lparr>maxRetries := Some 1,
              errorInterceptor := Some (\<lambda>err q. Retry no_overrides (\<lambda>r. Return Undefined)),
              errorMapper :=
                Single (Fn (\<lambda>e. Returns (Some (VortexError (etype e) ''mapped'' (status e))))),
              onError := Some Quiet\<rparr>)
           (new_SimpleCache 1000 False)))
     = Some (Throws (VErr (VortexError HTTP ''HTTP error'' (Some 500))),
           [Transport 0, Transport 1, OnError (VortexError HTTP ''mapped'' (Some 500)),
            OnError (VortexError HTTP ''HTTP error'' (Some 500))])
   \<and> map_option (\<lambda>rw. (fst rw, events (snd rw)))
     (send 3 (SimpleCache_env 0 always_500 users_key)
        (new_world
           (empty_level\<lparr>maxRetries := Some 1,
              errorInterceptor := Some (\<lambda>err q. Throw (VErr err)),
              errorMapper :=
                Single (Fn (\<lambda>e. Returns (Some (VortexError (etype e) ''mapped'' (status e))))),
              onError := Some Quiet\<rparr>)
           (new_SimpleCache 1000 False)))
     = Some (Throws (VErr (VortexError HTTP ''mapped'' (Some 500))),
           [Transport 0, OnError (VortexError HTTP ''mapped'' (Some 500))])
   \<and> map_option (\<lambda>rw. (fst rw, events (snd rw)))
     (send 3 (SimpleCache_env 0 always_500 users_key)
        (new_world
           (empty_level\<lparr>maxRetries := Some 1,
              errorMapper :=
                Single (Fn (\<lambda>e. Returns (Some (VortexError (etype e) ''mapped'' (status e))))),
              onError := Some Quiet\<rparr>)
           (new_SimpleCache 1000 False)))
     = Some (Throws (VErr (VortexError HTTP ''mapped'' (Some 500))),
           [Transport 0, OnError (VortexError HTTP ''mapped'' (Some 500))])"
  by code_simp

text \<open>
  Stale-while-revalidate with nothing in the cache and no refresh in flight: the caller
  gets what the refresh resolves with; when the refresh rejects, the \<open>catch\<close> of the
  refresh chain turns the rejection into \<open>null\<close>, and that is what the caller gets.
\<close>

lemma swr_no_stale_refresh_succeeds:
  assumes "cache_get env (cacheInstance w) (generateCacheKey env (request_of cfg))
             = (Returns Null, c')"
      and "map_of (inflightRequests w) (''revalidate::'' @ generateCacheKey env (request_of cfg))
             = None"
      and "executeRequestAndHandleCallbacks n env cfg (w\<lparr>cacheInstance := c'\<rparr>)
             = Some (Returns v, w1)"
  shows "map_option fst (handleStaleWhileRevalidate n env cfg w) = Some (Returns v)"
  using assms by (simp add: handleStaleWhileRevalidate_def Let_def)

lemma swr_no_stale_refresh_fails:
  assumes "cache_get env (cacheInstance w) (generateCacheKey env (request_of cfg))
             = (Returns Null, c')"
      and "map_of (inflightRequests w) (''revalidate::'' @ generateCacheKey env (request_of cfg))
             = None"
      and "executeRequestAndHandleCallbacks n env cfg (w\<lparr>cacheInstance := c'\<rparr>)
             = Some (Throws x, w1)"
  shows "map_option fst (handleStaleWhileRevalidate n env cfg w) = Some (Returns Null)"
  using assms by (simp add: handleStaleWhileRevalidate_def Let_def)

text \<open>When the cache read itself rejects, the request is run and its outcome passed on.\<close>

lemma swr_cache_read_fails:
  assumes "cache_get env (cacheInstance w) (generateCacheKey env (request_of cfg))
             = (Throws x, c')"
  shows "handleStaleWhileRevalidate n env cfg w
           = executeRequestAndHandleCallbacks n env cfg (w\<lparr>cacheInstance := c'\<rparr>)"
  using assms by (simp add: handleStaleWhileRevalidate_def Let_def)

text \<open>
  Under stale-while-revalidate, stale data in the cache is what the caller gets, however
  the refresh ends.
\<close>

lemma swr_stale_data_wins:
  assumes "cache_get env (cacheInstance w) (generateCacheKey env (request_of cfg))
             = (Returns staleData, c')"
      and "staleData \<noteq> Null"
      and "handleStaleWhileRevalidate n env cfg w = Some (r, w')"
  shows "r = Returns staleData"
  using assms
  by (auto simp: handleStaleWhileRevalidate_def Let_def split: option.splits prod.splits)

text \<open>
  Claim C2 at a concrete request: stale-while-revalidate is on, the built-in cache is
  empty, no refresh is in flight, and the server answers 500. The transport is called
  once and \<open>send()\<close> resolves with \<open>null\<close>. The same request under the simple strategy
  rejects with the HTTP error, and so does the stale-while-revalidate request when the
  cache read itself rejects.
\<close>

theorem swr_refresh_failure_resolves_null:
  "map_option (\<lambda>rw. (fst rw, events (snd rw)))
     (send 2 (SimpleCache_env 0 always_500 users_key)
        (new_world (empty_level\<lparr>cacheConfig := Some swr_cache\<rparr>) (new_SimpleCache 1000 False)))
     = Some (Returns Null, [Transport 0])
   \<and> map_option fst
     (send 2 (SimpleCache_env 0 always_500 users_key)
        (new_world empty_level (new_SimpleCache 1000 False)))
     = Some (Throws (VErr (VortexError HTTP ''HTTP error'' (Some 500))))
   \<and> map_option fst
     (send 2 (faulty_cache_env always_500 users_key)
        (new_world (empty_level\<lparr>cacheConfig := Some swr_cache\<rparr>) ()))
     = Some (Throws (VErr (VortexError HTTP ''HTTP error'' (Some 500))))"
  by code_simp


end
